theory Spec2Isabelle
  imports Main "HOL-Library.Char_ord" "HOL-Library.List_Lexorder"
begin

section \<open>Strings and the regular expressions of the source\<close>

text \<open>
  JavaScript strings are modelled as \<^typ>\<open>string\<close>; a \<^typ>\<open>char\<close> stands for one
  code unit below 256. The regular expressions of the source are translated by hand into
  scanners over the character list.
\<close>

definition is_word_char :: "char \<Rightarrow> bool" where
  \<comment> \<open>the class \<open>[A-Za-z0-9_]\<close>, which is also \<open>\w\<close> of \<open>\b\<close>\<close>
  "is_word_char c =
     (let n = of_char c :: nat
      in (65 \<le> n \<and> n \<le> 90) \<or> (97 \<le> n \<and> n \<le> 122) \<or> (48 \<le> n \<and> n \<le> 57) \<or> n = 95)"

definition upper_ascii :: "char \<Rightarrow> char" where
  \<comment> \<open>canonicalisation under the \<open>i\<close> flag, on ASCII letters\<close>
  "upper_ascii c =
     (let n = of_char c :: nat in if 97 \<le> n \<and> n \<le> 122 then char_of (n - 32) else c)"

definition is_space :: "char \<Rightarrow> bool" where
  \<comment> \<open>what \<open>String.prototype.trim\<close> strips, below code unit 256\<close>
  "is_space c = (of_char c \<in> {9, 10, 11, 12, 13, 32, 160 :: nat})"

definition trim :: "string \<Rightarrow> string" where
  "trim s = rev (dropWhile is_space (rev (dropWhile is_space s)))"

fun starts_with :: "string \<Rightarrow> string \<Rightarrow> bool" where
  \<comment> \<open>\<open>starts_with p s\<close>: \<open>p\<close> is a prefix of \<open>s\<close>\<close>
  "starts_with [] s = True"
| "starts_with (p # ps) [] = False"
| "starts_with (p # ps) (c # cs) = (p = c \<and> starts_with ps cs)"

fun starts_with_ci :: "string \<Rightarrow> string \<Rightarrow> bool" where
  "starts_with_ci [] s = True"
| "starts_with_ci (p # ps) [] = False"
| "starts_with_ci (p # ps) (c # cs) = (upper_ascii p = upper_ascii c \<and> starts_with_ci ps cs)"

definition ends_with :: "string \<Rightarrow> string \<Rightarrow> bool" where
  "ends_with s p = starts_with (rev p) (rev s)"

fun count_char :: "char \<Rightarrow> string \<Rightarrow> nat" where
  "count_char x [] = 0"
| "count_char x (c # cs) = (if c = x then Suc (count_char x cs) else count_char x cs)"

fun count_matches_from :: "string \<Rightarrow> nat \<Rightarrow> string \<Rightarrow> nat" where
  \<comment> \<open>\<open>(s.match(/p/g) || []).length\<close> for a literal \<open>p\<close>: matches are found left to right
      and do not overlap; the counter skips the rest of a match\<close>
  "count_matches_from p k [] = 0"
| "count_matches_from p (Suc k) (c # cs) = count_matches_from p k cs"
| "count_matches_from p 0 (c # cs) =
     (if starts_with p (c # cs) then Suc (count_matches_from p (length p - 1) cs)
      else count_matches_from p 0 cs)"

definition count_matches :: "string \<Rightarrow> string \<Rightarrow> nat" where
  "count_matches p s = count_matches_from p 0 s"

fun word_test_from :: "string \<Rightarrow> bool \<Rightarrow> string \<Rightarrow> bool" where
  \<comment> \<open>\<open>/\bW\b/i.test(s)\<close> for a word \<open>W\<close> of word characters; the flag says whether the
      character before the current position is a word character\<close>
  "word_test_from w prev [] = False"
| "word_test_from w prev (c # cs) =
     ((\<not> prev \<and> starts_with_ci w (c # cs) \<and>
        (case drop (length w) (c # cs) of [] \<Rightarrow> True | d # _ \<Rightarrow> \<not> is_word_char d))
      \<or> word_test_from w (is_word_char c) cs)"

definition word_test :: "string \<Rightarrow> string \<Rightarrow> bool" where
  "word_test w s = word_test_from w False s"

section \<open>Validator: the syntax scan (lib/sql/validate.ts)\<close>

definition DISALLOWED :: "string list" where
  "DISALLOWED = [''DROP'', ''TRUNCATE'', ''ALTER'', ''CREATE'', ''INSERT'', ''UPDATE'',
     ''DELETE'', ''MERGE'', ''COPY'', ''PUT'', ''GET'']"

definition syntaxScan :: "string \<Rightarrow> bool \<times> string list" where
  \<comment> \<open>returns \<open>(ok, issues)\<close>; an issue names the verb where the source prints the
      source text of the regular expression\<close>
  "syntaxScan sql =
     (let cleanedSql = trim sql;
          semis = count_char CHR '';'' cleanedSql;
          endsWithSemi = ends_with cleanedSql '';'';
          i1 = (if semis > 1 \<or> (semis = 1 \<and> \<not> endsWithSemi)
                then [''Multiple statements detected.''] else []);
          i2 = map (\<lambda>w. ''Disallowed token: '' @ w) (filter (\<lambda>w. word_test w sql) DISALLOWED);
          openComments = count_matches ''/*'' sql;
          closeComments = count_matches ''*/'' sql;
          i3 = (if openComments \<noteq> closeComments
                then [''Unclosed or unmatched block comment.''] else []);
          issues = i1 @ i2 @ i3
      in (issues = [], issues))"

section \<open>Execution guard: preflight (lib/snowflake.ts)\<close>

datatype guard_error = MultiStatement | DisallowedToken string

fun first_disallowed :: "string list \<Rightarrow> string \<Rightarrow> string option" where
  "first_disallowed [] sql = None"
| "first_disallowed (w # ws) sql = (if word_test w sql then Some w else first_disallowed ws sql)"

definition preflightGuard :: "string \<Rightarrow> guard_error + unit" where
  "preflightGuard sql =
     (if count_char CHR '';'' sql > 0 then Inl MultiStatement
      else case first_disallowed DISALLOWED sql of
             Some w \<Rightarrow> Inl (DisallowedToken w)
           | None \<Rightarrow> Inr ())"

section \<open>The semantic model (lib/semantic/types.ts)\<close>

text \<open>
  Optional arrays of the descriptors (\<open>aliases\<close>, \<open>filters\<close>) are lists, the absent array
  being the empty list: the code reads them through \<open>?? []\<close>. The values of a filter
  are JavaScript values; a number carries the text \<open>String(v)\<close> gives for it, and
  \<open>VOther\<close> is any value that is neither number, boolean nor string, with its
  \<open>String(v)\<close> text. A registry is a \<open>Map\<close> from entity names to entities, kept as the
  list of its entries in insertion order. Fields that none of the functions below reads
  (titles, descriptions, grain, common filters, units, periods) are left out.
\<close>

datatype js_value = VNumber string | VBoolean bool | VString string | VOther string

record MetricFilterRaw =
  flt_field :: string
  flt_operator :: string
  flt_values :: "js_value list"

record DimensionRaw =
  dim_name :: string
  dim_sql :: string
  dim_type :: string
  dim_aliases :: "string list"

record TimeDimensionRaw =
  td_name :: string
  td_sql :: string

datatype measure_type = MCount | MCountDistinct | MSum | MAvg | MMin | MMax | MNumber

record MeasureRaw =
  meas_name :: string
  meas_type :: measure_type
  meas_sql :: "string option"
  meas_aliases :: "string list"

record MetricSource =
  src_measure :: string
  src_anchor_date :: string
  src_filters :: "MetricFilterRaw list"

datatype metric_type = Atomic | Derived

record MetricRaw =
  met_name :: string
  met_type :: metric_type
  met_source :: "MetricSource option"
  met_aliases :: "string list"

datatype relationship = OneToOne | OneToMany | ManyToOne | ManyToMany

record JoinRaw =
  target_entity :: string
  join_relationship :: relationship
  join_from :: string
  join_to :: string

record EntityJson =
  ent_name :: string
  ent_table :: string
  dimensions :: "DimensionRaw list"
  time_dimensions :: "TimeDimensionRaw list"
  ent_measures :: "MeasureRaw list"
  metrics :: "MetricRaw list"
  joins :: "JoinRaw list"
  dimIndex :: "string \<rightharpoonup> DimensionRaw"
  measureIndex :: "string \<rightharpoonup> MeasureRaw"
  metricIndex :: "string \<rightharpoonup> MetricRaw"
  aliasIndex :: "string \<rightharpoonup> string list"
  reverseAliasIndex :: "string \<rightharpoonup> string"

type_synonym Registry = "(string \<times> EntityJson) list"

section \<open>Repair: fuzzy column match (lib/execute/repair.ts)\<close>

text \<open>
  \<open>levenshtein\<close> fills the table \<open>dp\<close> row by row: \<open>fill_row\<close> computes the cells
  \<open>dp[i][1..n]\<close> from the row above, and \<open>next_row\<close> puts \<open>dp[i][0] = i\<close> in front.
  \<open>Math.ceil(needle.length * 0.3)\<close> is computed in integers: for a length that is a
  multiple of ten the floating-point product is the exact integer, and otherwise its
  fractional part is at least one tenth.
\<close>

definition lower_char :: "char \<Rightarrow> char" where
  "lower_char c =
     (let n = of_char c :: nat
      in if (65 \<le> n \<and> n \<le> 90) \<or> (192 \<le> n \<and> n \<le> 214) \<or> (216 \<le> n \<and> n \<le> 222)
         then char_of (n + 32) else c)"

definition normalize_str :: "string \<Rightarrow> string" where
  "normalize_str s = map lower_char (trim (filter (\<lambda>c. c \<noteq> CHR 0x22 \<and> c \<noteq> CHR 0x60) s))"

fun fill_row :: "char \<Rightarrow> string \<Rightarrow> nat list \<Rightarrow> nat \<Rightarrow> nat list" where
  "fill_row x (y # ys) (diag # up # prev) left =
     (let cost = (if x = y then 0 else 1);
          v = min (min (up + 1) (left + 1)) (diag + cost)
      in v # fill_row x ys (up # prev) v)"
| "fill_row x ys prev left = []"

definition next_row :: "string \<Rightarrow> nat list \<Rightarrow> nat \<times> char \<Rightarrow> nat list" where
  "next_row b prev ix = (case ix of (i, x) \<Rightarrow> i # fill_row x b prev i)"

definition levenshtein :: "string \<Rightarrow> string \<Rightarrow> nat" where
  "levenshtein a b =
     last (foldl (next_row b) [0 ..< Suc (length b)] (zip [1 ..< Suc (length a)] a))"

record best_match =
  best_entity :: string
  best_field :: string
  best_score :: nat

definition candidates_of :: "string \<times> EntityJson \<Rightarrow> (string \<times> string \<times> string) list" where
  "candidates_of p = (case p of (ename, ent) \<Rightarrow>
     concat (map (\<lambda>d. map (\<lambda>c. (ename, dim_name d, c)) (dim_name d # dim_aliases d))
                 (dimensions ent))
     @ map (\<lambda>td. (ename, td_name td, td_name td)) (time_dimensions ent))"

definition candidates :: "Registry \<Rightarrow> (string \<times> string \<times> string) list" where
  "candidates reg = concat (map candidates_of reg)"

definition consider_candidate ::
  "string \<Rightarrow> best_match option \<Rightarrow> string \<times> string \<times> string \<Rightarrow> best_match option" where
  "consider_candidate needle best cand = (case cand of (ename, field, c) \<Rightarrow>
     (let score = levenshtein needle (normalize_str c)
      in case best of
           None \<Rightarrow> Some \<lparr>best_entity = ename, best_field = field, best_score = score\<rparr>
         | Some b \<Rightarrow>
             if score < best_score b
             then Some \<lparr>best_entity = ename, best_field = field, best_score = score\<rparr>
             else best))"

definition ceil_30_percent :: "nat \<Rightarrow> nat" where
  "ceil_30_percent n = (3 * n + 9) div 10"

definition bestColumnMatch :: "string \<Rightarrow> Registry \<Rightarrow> (string \<times> string) option" where
  "bestColumnMatch target reg =
     (let needle = normalize_str target;
          best = foldl (consider_candidate needle) None (candidates reg)
      in case best of
           None \<Rightarrow> None
         | Some b \<Rightarrow>
             if best_score b \<le> 3 \<or> best_score b \<le> ceil_30_percent (length needle)
             then Some (best_entity b, best_field b) else None)"

definition cand_score :: "string \<Rightarrow> string \<times> string \<times> string \<Rightarrow> nat" where
  "cand_score needle cand = levenshtein needle (normalize_str (snd (snd cand)))"

definition reg_xy :: Registry where
  "reg_xy = [(''e'', \<lparr>ent_name = ''e'', ent_table = ''main.e'',
      dimensions = [\<lparr>dim_name = ''xy'', dim_sql = ''{CUBE}.xy'', dim_type = ''string'',
                     dim_aliases = []\<rparr>],
      time_dimensions = [], ent_measures = [], metrics = [], joins = [],
      dimIndex = Map.empty, measureIndex = Map.empty, metricIndex = Map.empty,
      aliasIndex = Map.empty, reverseAliasIndex = Map.empty\<rparr>)]"

section \<open>Execution guard: circuit breaker and retries (lib/snowflake.ts)\<close>

text \<open>
  The breaker is the module-scoped object \<open>breaker\<close>; it is passed in and returned. Time
  is in milliseconds; every reading of \<open>Date.now()\<close> is an argument. The pool and the
  driver are the environment: for the attempt number \<open>k\<close>, \<open>env k\<close> says whether the pool
  hands out a connection, what the driver answers to the statement, and the clock
  readings of the attempt. The trace lists, in order, the connections acquired and the
  statements sent to the warehouse, each with the clock reading and with whether the
  breaker was open at that moment.
\<close>

record breaker_state =
  consecutiveFailures :: nat
  trippedUntil :: int

definition isOpen :: "breaker_state \<Rightarrow> int \<Rightarrow> bool" where
  "isOpen b now = (now < trippedUntil b)"

definition recordSuccess :: "breaker_state \<Rightarrow> breaker_state" where
  "recordSuccess b = b\<lparr>consecutiveFailures := 0, trippedUntil := 0\<rparr>"

definition recordFailure :: "breaker_state \<Rightarrow> int \<Rightarrow> breaker_state" where
  \<comment> \<open>the second argument is the reading of \<open>Date.now()\<close>\<close>
  "recordFailure b now =
     (let b1 = b\<lparr>consecutiveFailures := consecutiveFailures b + 1\<rparr>
      in if consecutiveFailures b1 \<ge> 3 then b1\<lparr>trippedUntil := now + 60000\<rparr> else b1)"

function string_of_nat :: "nat \<Rightarrow> string" where
  \<comment> \<open>\<open>String(n)\<close> for a natural number\<close>
  "string_of_nat n =
     (if n < 10 then [char_of (48 + n)]
      else string_of_nat (n div 10) @ [char_of (48 + n mod 10)])"
  by pat_completeness auto
termination
  by (relation "measure (\<lambda>n. n)") auto

declare string_of_nat.simps [simp del]

definition is_digit :: "char \<Rightarrow> bool" where
  "is_digit c = (let n = of_char c :: nat in 48 \<le> n \<and> n \<le> 57)"

fun limit_test :: "string \<Rightarrow> bool" where
  \<comment> \<open>\<open>/limit\s+\d+/i.test(s)\<close>\<close>
  "limit_test [] = False"
| "limit_test (c # cs) =
     ((starts_with_ci ''limit'' (c # cs) \<and>
        (let r = drop 5 (c # cs); r' = dropWhile is_space r
         in r \<noteq> [] \<and> is_space (hd r) \<and> r' \<noteq> [] \<and> is_digit (hd r')))
      \<or> limit_test cs)"

definition ensureLimit :: "string \<Rightarrow> nat \<Rightarrow> string" where
  "ensureLimit sql rowLimit =
     (if limit_test sql then sql else sql @ [CHR 0x0A] @ ''LIMIT '' @ string_of_nat rowLimit)"

record ExecOptions =
  opt_timeoutMs :: "nat option"
  opt_rowLimit :: "nat option"
  opt_attempts :: "int option"
  opt_enforceLimit :: "bool option"
  opt_queryTag :: "string option"

record 'row ExecResult =
  res_rows :: "'row list"
  res_columns :: "(string \<times> string) list"
  res_lastQueryId :: string
  res_truncated :: bool

record 'row attempt_env =
  acquire_ok :: bool
  started_at :: int
  tag_ok :: bool
  statement_outcome :: "string + ('row list \<times> (string \<times> string) list \<times> string)"
  failed_at :: int

datatype exec_error =
    BreakerOpen
  | AcquireFailed
  | PreflightRejected guard_error
  | DriverError string
  | UnknownFailure

datatype event = Acquired int bool | Executed int string bool

definition escape_quotes :: "string \<Rightarrow> string" where
  \<comment> \<open>\<open>s.replace(/'/g, "''")\<close>\<close>
  "escape_quotes s = concat (map (\<lambda>c. if c = CHR 0x27 then [c, c] else [c]) s)"

definition query_tag_statement :: "string \<Rightarrow> string" where
  "query_tag_statement tag =
     ''ALTER SESSION SET QUERY_TAG='' @ [CHR 0x27] @ escape_quotes tag @ [CHR 0x27]"

definition try_attempt ::
  "'row attempt_env \<Rightarrow> string \<Rightarrow> ExecOptions \<Rightarrow> breaker_state \<Rightarrow>
   (exec_error + 'row ExecResult) \<times> event list" where
  \<comment> \<open>the body of \<open>try\<close>: preflight, query tag, statement; with the statements sent.
      A rejected \<open>ALTER SESSION\<close> is reported as the driver error \<open>query tag\<close>\<close>
  "try_attempt a sql opts b =
     (let t = started_at a;
          rowLimit = (case opt_rowLimit opts of Some n \<Rightarrow> n | None \<Rightarrow> 1001);
          enforceLimit = (opt_enforceLimit opts = Some True);
          tag = (case opt_queryTag opts of Some tg \<Rightarrow> tg | None \<Rightarrow> []);
          finalSql = (if enforceLimit then ensureLimit sql rowLimit else sql);
          tagEvents = (if tag \<noteq> [] then [Executed t (query_tag_statement tag) (isOpen b t)]
                       else [])
      in case preflightGuard sql of
           Inl g \<Rightarrow> (Inl (PreflightRejected g), [])
         | Inr _ \<Rightarrow>
             if tag \<noteq> [] \<and> \<not> tag_ok a then (Inl (DriverError ''query tag''), tagEvents)
             else (case statement_outcome a of
                     Inl msg \<Rightarrow> Inl (DriverError msg)
                   | Inr (rows, cols, qid) \<Rightarrow>
                       Inr \<lparr>res_rows = rows, res_columns = cols, res_lastQueryId = qid,
                            res_truncated =
                              (if enforceLimit then length rows \<ge> rowLimit else False)\<rparr>,
                   tagEvents @ [Executed t finalSql (isOpen b t)]))"

fun run_attempts ::
  "(nat \<Rightarrow> 'row attempt_env) \<Rightarrow> string \<Rightarrow> ExecOptions \<Rightarrow> nat list \<Rightarrow> breaker_state \<Rightarrow>
   exec_error option \<Rightarrow> event list \<Rightarrow>
   (exec_error + 'row ExecResult) \<times> breaker_state \<times> event list" where
  \<comment> \<open>the \<open>for\<close> loop over the attempts still to make; a connection that cannot be
      acquired is thrown outside \<open>try\<close> and ends the call\<close>
  "run_attempts env sql opts [] b lastErr tr =
     (Inl (case lastErr of Some e \<Rightarrow> e | None \<Rightarrow> UnknownFailure), b, tr)"
| "run_attempts env sql opts (k # ks) b lastErr tr =
     (let a = env k
      in if \<not> acquire_ok a then (Inl AcquireFailed, b, tr)
         else
           let tr1 = tr @ [Acquired (started_at a) (isOpen b (started_at a))]
           in (case try_attempt a sql opts b of
                 (Inr r, evs) \<Rightarrow> (Inr r, recordSuccess b, tr1 @ evs)
               | (Inl e, evs) \<Rightarrow>
                   run_attempts env sql opts ks (recordFailure b (failed_at a)) (Some e)
                     (tr1 @ evs)))"

definition attempts_of :: "ExecOptions \<Rightarrow> nat" where
  \<comment> \<open>\<open>Math.max(1, Math.min(opts.attempts ?? 3, 5))\<close>\<close>
  "attempts_of opts = nat (max 1 (min (case opt_attempts opts of Some n \<Rightarrow> n | None \<Rightarrow> 3) 5))"

definition execWithRetry ::
  "(nat \<Rightarrow> 'row attempt_env) \<Rightarrow> breaker_state \<Rightarrow> int \<Rightarrow> string \<Rightarrow> ExecOptions \<Rightarrow>
   (exec_error + 'row ExecResult) \<times> breaker_state \<times> event list" where
  \<comment> \<open>\<open>now\<close> is the reading of \<open>Date.now()\<close> on entry\<close>
  "execWithRetry env b now sql opts =
     (if isOpen b now then (Inl BreakerOpen, b, [])
      else run_attempts env sql opts [1 ..< Suc (attempts_of opts)] b None [])"

fun is_acquired :: "event \<Rightarrow> bool" where
  "is_acquired (Acquired t was_open) = True"
| "is_acquired (Executed t sqlText was_open) = False"

definition default_options :: ExecOptions where
  "default_options = \<lparr>opt_timeoutMs = None, opt_rowLimit = None, opt_attempts = None,
     opt_enforceLimit = None, opt_queryTag = None\<rparr>"

definition always_failing :: "nat \<Rightarrow> unit attempt_env" where
  \<comment> \<open>a driver that answers every statement with an error, one second per attempt\<close>
  "always_failing k =
     \<lparr>acquire_ok = True, started_at = 1000 * int k, tag_ok = True,
      statement_outcome = Inl ''warehouse unavailable'', failed_at = 1000 * int k + 100\<rparr>"

definition five_attempts :: ExecOptions where
  "five_attempts = \<lparr>opt_timeoutMs = None, opt_rowLimit = None, opt_attempts = Some 5,
     opt_enforceLimit = None, opt_queryTag = None\<rparr>"

definition closed_breaker :: breaker_state where
  "closed_breaker = \<lparr>consecutiveFailures = 0, trippedUntil = 0\<rparr>"

definition answering_from :: "int \<Rightarrow> nat \<Rightarrow> unit attempt_env" where
  \<comment> \<open>a driver that answers every statement with one row, for a request entered at the
      given time\<close>
  "answering_from t0 k =
     \<lparr>acquire_ok = True, started_at = t0 + 1000 * int k, tag_ok = True,
      statement_outcome = Inr ([()], [(''N'', ''FIXED'')], ''q1''),
      failed_at = t0 + 1000 * int k + 100\<rparr>"

section \<open>Semantic store: loading an entity (lib/semantic/io.ts)\<close>

text \<open>
  The file system, the YAML parser and the schema validation are the environment: the
  text of the file of an entity name (if there is one), the parsed document or the
  parser's message, and the typed descriptor or the schema's issues. The entity cache
  is the module-scoped \<open>Map\<close> from names to the descriptor text and the entity.
\<close>

record EntityYamlRaw =
  raw_name :: string
  raw_table :: string
  raw_aliases :: "(string \<times> string list) list"
  raw_dimensions :: "DimensionRaw list"
  raw_time_dimensions :: "TimeDimensionRaw list"
  raw_measures :: "MeasureRaw list"
  raw_metrics :: "MetricRaw list"
  raw_joins :: "JoinRaw list"

datatype load_error =
    MissingEntityFile string
  | YamlParseError string string
  | SchemaInvalid string string
  | JoinInvalid string string
  | MetricWithoutSource string string
  | UnknownMeasure string string
  | AnchorNotTimeDimension string string
  | EmptyFilterField string

record 'doc store_env =
  read_file :: "string \<Rightarrow> string option"
  yaml_load :: "string \<Rightarrow> string + 'doc"
  schema_parse :: "'doc \<Rightarrow> string + EntityYamlRaw"

type_synonym entity_cache = "string \<rightharpoonup> string \<times> EntityJson"

definition addAliases ::
  "(string \<rightharpoonup> string list) \<times> (string \<rightharpoonup> string) \<Rightarrow> string \<Rightarrow> string list \<Rightarrow>
   (string \<rightharpoonup> string list) \<times> (string \<rightharpoonup> string)" where
  "addAliases idx canonical aliases = (case idx of (ai, ri) \<Rightarrow>
     if aliases = [] then idx
     else (ai(canonical \<mapsto> (case ai canonical of Some prev \<Rightarrow> prev | None \<Rightarrow> []) @ aliases),
           fold (\<lambda>a r. r(a \<mapsto> canonical)) aliases ri))"

definition buildAliasIndexes ::
  "EntityYamlRaw \<Rightarrow> (string \<rightharpoonup> string list) \<times> (string \<rightharpoonup> string)" where
  "buildAliasIndexes entity =
     (let i0 = fold (\<lambda>ca idx. case (ca, idx) of ((canonical, arr), (ai, ri)) \<Rightarrow>
                       (ai(canonical \<mapsto> arr), fold (\<lambda>a r. r(a \<mapsto> canonical)) arr ri))
                    (raw_aliases entity) (Map.empty, Map.empty);
          i1 = fold (\<lambda>d idx. addAliases idx (dim_name d) (dim_aliases d))
                    (raw_dimensions entity) i0;
          i2 = fold (\<lambda>m idx. addAliases idx (meas_name m) (meas_aliases m))
                    (raw_measures entity) i1
      in fold (\<lambda>m idx. addAliases idx (met_name m) (met_aliases m)) (raw_metrics entity) i2)"

definition indexByName :: "('a \<Rightarrow> string) \<Rightarrow> 'a list \<Rightarrow> (string \<rightharpoonup> 'a)" where
  \<comment> \<open>the first argument reads the field \<open>name\<close>\<close>
  "indexByName nm arr = fold (\<lambda>x m. m(nm x \<mapsto> x)) arr Map.empty"

fun validateJoins ::
  "string \<Rightarrow> JoinRaw list \<Rightarrow> (string \<rightharpoonup> DimensionRaw) \<Rightarrow> load_error + unit" where
  "validateJoins ename [] dimIdx = Inr ()"
| "validateJoins ename (j # js) dimIdx =
     (if dimIdx (join_from j) = None then Inl (JoinInvalid ename (join_from j))
      else validateJoins ename js dimIdx)"

fun check_filter_fields :: "string \<Rightarrow> MetricFilterRaw list \<Rightarrow> load_error + unit" where
  "check_filter_fields mname [] = Inr ()"
| "check_filter_fields mname (f # fs) =
     (if flt_field f = [] then Inl (EmptyFilterField mname) else check_filter_fields mname fs)"

fun validateMetricSources ::
  "string \<Rightarrow> MetricRaw list \<Rightarrow> (string \<rightharpoonup> MeasureRaw) \<Rightarrow> string set \<Rightarrow> load_error + unit" where
  "validateMetricSources ename [] measIdx timeDimNames = Inr ()"
| "validateMetricSources ename (met # mets) measIdx timeDimNames =
     (if met_type met = Atomic then
        (case met_source met of
           None \<Rightarrow> Inl (MetricWithoutSource (met_name met) ename)
         | Some src \<Rightarrow>
             if measIdx (src_measure src) = None
             then Inl (UnknownMeasure (met_name met) (src_measure src))
             else if src_anchor_date src \<notin> timeDimNames
             then Inl (AnchorNotTimeDimension (met_name met) (src_anchor_date src))
             else (case check_filter_fields (met_name met) (src_filters src) of
                     Inl e \<Rightarrow> Inl e
                   | Inr _ \<Rightarrow> validateMetricSources ename mets measIdx timeDimNames))
      else validateMetricSources ename mets measIdx timeDimNames)"

definition loadEntityYaml ::
  "'doc store_env \<Rightarrow> string \<Rightarrow> entity_cache \<Rightarrow>
   (load_error + string \<times> string \<times> EntityJson) \<times> entity_cache" where
  \<comment> \<open>returns the outcome and the entity cache after the call\<close>
  "loadEntityYaml env name cache =
     (case cache name of
        Some (y, cached) \<Rightarrow> (Inr (name, y, cached), cache)
      | None \<Rightarrow>
         (case read_file env name of
            None \<Rightarrow> (Inl (MissingEntityFile name), cache)
          | Some raw \<Rightarrow>
             (case yaml_load env raw of
                Inl msg \<Rightarrow> (Inl (YamlParseError name msg), cache)
              | Inr doc \<Rightarrow>
                 (case schema_parse env doc of
                    Inl issues \<Rightarrow> (Inl (SchemaInvalid name issues), cache)
                  | Inr entityRaw \<Rightarrow>
                     (let dimIdx = indexByName dim_name (raw_dimensions entityRaw);
                          measIdx = indexByName meas_name (raw_measures entityRaw);
                          metIdx = indexByName met_name (raw_metrics entityRaw);
                          aliasIdx = buildAliasIndexes entityRaw
                      in case validateJoins (raw_name entityRaw) (raw_joins entityRaw) dimIdx of
                           Inl e \<Rightarrow> (Inl e, cache)
                         | Inr _ \<Rightarrow>
                            (case validateMetricSources (raw_name entityRaw)
                                    (raw_metrics entityRaw) measIdx
                                    (set (map td_name (raw_time_dimensions entityRaw))) of
                               Inl e \<Rightarrow> (Inl e, cache)
                             | Inr _ \<Rightarrow>
                                (let entity =
                                   \<lparr>ent_name = raw_name entityRaw,
                                    ent_table = raw_table entityRaw,
                                    dimensions = raw_dimensions entityRaw,
                                    time_dimensions = raw_time_dimensions entityRaw,
                                    ent_measures = raw_measures entityRaw,
                                    metrics = raw_metrics entityRaw,
                                    joins = raw_joins entityRaw,
                                    dimIndex = dimIdx,
                                    measureIndex = measIdx,
                                    metricIndex = metIdx,
                                    aliasIndex = fst aliasIdx,
                                    reverseAliasIndex = snd aliasIdx\<rparr>
                                 in (Inr (name, raw, entity),
                                     cache(name \<mapsto> (raw, entity))))))))))"

definition fully_validated :: "EntityJson \<Rightarrow> bool" where
  \<comment> \<open>the invariants of a loaded entity: join locality, metric source, anchor date\<close>
  "fully_validated e =
     ((\<forall>j \<in> set (joins e). join_from j \<in> set (map dim_name (dimensions e))) \<and>
      (\<forall>m \<in> set (metrics e). met_type m = Atomic \<longrightarrow>
         (case met_source m of
            None \<Rightarrow> False
          | Some src \<Rightarrow>
              src_measure src \<in> set (map meas_name (ent_measures e)) \<and>
              src_anchor_date src \<in> set (map td_name (time_dimensions e)))))"

definition cache_valid :: "entity_cache \<Rightarrow> bool" where
  "cache_valid cache = (\<forall>n y e. cache n = Some (y, e) \<longrightarrow> fully_validated e)"

definition accounts_raw :: EntityYamlRaw where
  "accounts_raw =
     \<lparr>raw_name = ''accounts'', raw_table = ''main.accounts'', raw_aliases = [],
      raw_dimensions =
        [\<lparr>dim_name = ''company_id'', dim_sql = ''{CUBE}.COMPANY_ID'', dim_type = ''number'',
          dim_aliases = []\<rparr>,
         \<lparr>dim_name = ''tier'', dim_sql = ''{CUBE}.ACCOUNT_TIER'', dim_type = ''string'',
          dim_aliases = [''plan'']\<rparr>],
      raw_time_dimensions = [\<lparr>td_name = ''CREATED_AT'', td_sql = ''{CUBE}.CREATED_AT''\<rparr>],
      raw_measures =
        [\<lparr>meas_name = ''count'', meas_type = MCount, meas_sql = None, meas_aliases = []\<rparr>],
      raw_metrics =
        [\<lparr>met_name = ''account_count'', met_type = Atomic,
          met_source = Some \<lparr>src_measure = ''count'', src_anchor_date = ''CREATED_AT'',
                             src_filters = []\<rparr>,
          met_aliases = []\<rparr>],
      raw_joins =
        [\<lparr>target_entity = ''companies'', join_relationship = ManyToOne,
          join_from = ''company_id'', join_to = ''id''\<rparr>]\<rparr>"

definition orphans_raw :: EntityYamlRaw where
  \<comment> \<open>a descriptor whose join names a dimension it does not declare\<close>
  "orphans_raw = accounts_raw\<lparr>raw_name := ''orphans'', raw_dimensions := []\<rparr>"

definition demo_store :: "string store_env" where
  "demo_store =
     \<lparr>read_file = (\<lambda>n. if n = ''accounts'' \<or> n = ''orphans'' then Some n else None),
      yaml_load = Inr,
      schema_parse = (\<lambda>d. if d = ''accounts'' then Inr accounts_raw
                           else if d = ''orphans'' then Inr orphans_raw
                           else Inl ''name: Required'')\<rparr>"

section \<open>Execution tool: result cache and repair loop (lib/tools/execute.ts)\<close>

text \<open>
  \<open>queryCache\<close> is a \<open>Map\<close> keyed by the SQL string, kept as the list of its entries in
  insertion order. The three executions a call can make (\<open>tryExec\<close>, that is
  \<open>execWithRetry\<close> on the pool) and the two repairs (\<open>attemptRepair\<close>) are the
  environment: each gives its outcome for the SQL it is called with, an execution
  failing with a message, a repair throwing, finding nothing (\<open>null\<close>) or giving the
  fixed SQL and a reason. The clock gives the three readings of \<open>Date.now()\<close>.
  The object a call returns is a record of its keys, \<open>None\<close> for an absent key; for
  \<open>repairReason\<close>, \<open>Some None\<close> is the value \<open>null\<close>.
\<close>

record 'row cache_entry =
  ce_rows :: "'row list"
  ce_columns :: "(string \<times> string) list"
  ce_lastQueryId :: string
  cachedAt :: int

type_synonym 'row query_cache = "(string \<times> 'row cache_entry) list"

definition CACHE_MAX_AGE_MS :: int where
  "CACHE_MAX_AGE_MS = 5 * 60 * 1000"

definition CACHE_MAX_SIZE :: nat where
  "CACHE_MAX_SIZE = 100"

definition cache_delete :: "string \<Rightarrow> 'row query_cache \<Rightarrow> 'row query_cache" where
  "cache_delete k c = filter (\<lambda>kv. fst kv \<noteq> k) c"

definition cache_set :: "string \<Rightarrow> 'row cache_entry \<Rightarrow> 'row query_cache \<Rightarrow> 'row query_cache" where
  \<comment> \<open>\<open>Map.set\<close>: an existing key keeps its place\<close>
  "cache_set k v c =
     (if k \<in> set (map fst c) then map (\<lambda>kv. if fst kv = k then (k, v) else kv) c
      else c @ [(k, v)])"

definition cleanExpiredCache :: "int \<Rightarrow> 'row query_cache \<Rightarrow> 'row query_cache" where
  \<comment> \<open>the argument is the reading of \<open>Date.now()\<close>\<close>
  "cleanExpiredCache now c =
     (let c1 = filter (\<lambda>kv. \<not> (now - cachedAt (snd kv) > CACHE_MAX_AGE_MS)) c
      in if length c1 > CACHE_MAX_SIZE then
           (let entries = sort_key (\<lambda>kv. cachedAt (snd kv)) c1;
                toRemove = take (length c1 - CACHE_MAX_SIZE) entries
            in fold (\<lambda>kv acc. cache_delete (fst kv) acc) toRemove c1)
         else c1)"

record 'row tool_output =
  o_rows :: "'row list option"
  o_columns :: "(string \<times> string) list option"
  o_lastQueryId :: "string option"
  o_truncated :: "bool option"
  o_attemptedSql :: string
  o_repaired :: bool
  o_repairReason :: "string option option"
  o_fromCache :: "bool option"
  o_ok :: "bool option"
  o_error :: "string option"

record 'row exec_env =
  tryExec0 :: "string \<Rightarrow> string + 'row ExecResult"
  repair1 :: "string \<Rightarrow> string \<Rightarrow> string + (string \<times> string) option"
  tryExec1 :: "string \<Rightarrow> string + 'row ExecResult"
  repair2 :: "string \<Rightarrow> string \<Rightarrow> string + (string \<times> string) option"
  tryExec2 :: "string \<Rightarrow> string + 'row ExecResult"

record clock =
  t_clean :: int
  t_lookup :: int
  t_store :: int

definition hit_output :: "string \<Rightarrow> 'row cache_entry \<Rightarrow> 'row tool_output" where
  "hit_output sql cached =
     \<lparr>o_rows = Some (ce_rows cached), o_columns = Some (ce_columns cached),
      o_lastQueryId = Some (ce_lastQueryId cached), o_truncated = None,
      o_attemptedSql = sql, o_repaired = False, o_repairReason = Some None,
      o_fromCache = Some True, o_ok = None, o_error = None\<rparr>"

definition success_output ::
  "'row ExecResult \<Rightarrow> string \<Rightarrow> bool \<Rightarrow> string option \<Rightarrow> 'row tool_output" where
  \<comment> \<open>\<open>{ ...res, attemptedSql, repaired, repairReason }\<close>\<close>
  "success_output res attempted repaired reason =
     \<lparr>o_rows = Some (res_rows res), o_columns = Some (res_columns res),
      o_lastQueryId = Some (res_lastQueryId res), o_truncated = Some (res_truncated res),
      o_attemptedSql = attempted, o_repaired = repaired, o_repairReason = Some reason,
      o_fromCache = None, o_ok = None, o_error = None\<rparr>"

definition failure_output ::
  "string \<Rightarrow> string \<Rightarrow> bool \<Rightarrow> string option option \<Rightarrow> 'row tool_output" where
  \<comment> \<open>\<open>{ ok: false, error, attemptedSql, repaired, repairReason? }\<close>\<close>
  "failure_output err attempted repaired reason =
     \<lparr>o_rows = None, o_columns = None, o_lastQueryId = None, o_truncated = None,
      o_attemptedSql = attempted, o_repaired = repaired, o_repairReason = reason,
      o_fromCache = None, o_ok = Some False, o_error = Some err\<rparr>"

definition store_result ::
  "string \<Rightarrow> 'row ExecResult \<Rightarrow> int \<Rightarrow> 'row query_cache \<Rightarrow> 'row query_cache" where
  "store_result cacheKey res now c =
     cache_set cacheKey
       \<lparr>ce_rows = res_rows res, ce_columns = res_columns res,
        ce_lastQueryId = res_lastQueryId res, cachedAt = now\<rparr> c"

definition second_repair ::
  "'row exec_env \<Rightarrow> clock \<Rightarrow> string \<Rightarrow> string \<Rightarrow> string \<Rightarrow> string \<Rightarrow> 'row query_cache \<Rightarrow>
   (string + 'row tool_output) \<times> 'row query_cache" where
  \<comment> \<open>the handler of the failure \<open>err1\<close> of the first repaired SQL\<close>
  "second_repair env ck sql fixed1 reason1 err1 c =
     (case repair2 env fixed1 err1 of
        Inl thrown \<Rightarrow> (Inl thrown, c)
      | Inr r2 \<Rightarrow>
         (case (case r2 of Some (f, r) \<Rightarrow> if f = [] then None else Some (f, r)
                         | None \<Rightarrow> None) of
            None \<Rightarrow> (Inr (failure_output err1 fixed1 True (Some (Some reason1))), c)
          | Some (fixed2, reason2) \<Rightarrow>
             (case tryExec2 env fixed2 of
                Inr res2 \<Rightarrow>
                  (Inr (success_output res2 fixed2 True (Some reason2)),
                   store_result sql res2 (t_store ck) c)
              | Inl err2 \<Rightarrow>
                  (Inr (failure_output err2 fixed2 True (Some (Some reason2))), c))))"

definition first_repair ::
  "'row exec_env \<Rightarrow> clock \<Rightarrow> string \<Rightarrow> string \<Rightarrow> 'row query_cache \<Rightarrow>
   (string + 'row tool_output) \<times> 'row query_cache" where
  \<comment> \<open>the handler of the failure \<open>err0\<close> of the original SQL\<close>
  "first_repair env ck sql err0 c =
     (case repair1 env sql err0 of
        Inl thrown \<Rightarrow> (Inl thrown, c)
      | Inr r1 \<Rightarrow>
         (case (case r1 of Some (f, r) \<Rightarrow> if f = [] then None else Some (f, r)
                         | None \<Rightarrow> None) of
            None \<Rightarrow> (Inr (failure_output err0 sql False None), c)
          | Some (fixed1, reason1) \<Rightarrow>
             (case tryExec1 env fixed1 of
                Inr res1 \<Rightarrow>
                  (Inr (success_output res1 fixed1 True (Some reason1)),
                   store_result sql res1 (t_store ck) c)
              | Inl err1 \<Rightarrow> second_repair env ck sql fixed1 reason1 err1 c)))"

definition ExecuteSQLWithRepair ::
  "'row exec_env \<Rightarrow> clock \<Rightarrow> string \<Rightarrow> 'row query_cache \<Rightarrow>
   (string + 'row tool_output) \<times> 'row query_cache" where
  \<comment> \<open>returns the outcome (\<open>Inl\<close>: the call throws) and the cache after the call\<close>
  "ExecuteSQLWithRepair env ck sql cache =
     (let c1 = cleanExpiredCache (t_clean ck) cache;
          fresh = (case map_of c1 sql of
                     Some cached \<Rightarrow>
                       if t_lookup ck - cachedAt cached < CACHE_MAX_AGE_MS then Some cached
                       else None
                   | None \<Rightarrow> None)
      in case fresh of
           Some cached \<Rightarrow> (Inr (hit_output sql cached), c1)
         | None \<Rightarrow>
            (let c2 = cache_delete sql c1
             in case tryExec0 env sql of
                  Inr res \<Rightarrow>
                    (Inr (success_output res sql False None),
                     store_result sql res (t_store ck) c2)
                | Inl err0 \<Rightarrow> first_repair env ck sql err0 c2))"

definition one_row :: "nat ExecResult" where
  "one_row = \<lparr>res_rows = [42], res_columns = [(''N'', ''FIXED'')], res_lastQueryId = ''q1'',
              res_truncated = False\<rparr>"

definition healthy :: "nat exec_env" where
  \<comment> \<open>a warehouse that answers the original SQL\<close>
  "healthy = \<lparr>tryExec0 = (\<lambda>sql. Inr one_row), repair1 = (\<lambda>sql err. Inr None),
              tryExec1 = (\<lambda>sql. Inr one_row), repair2 = (\<lambda>sql err. Inr None),
              tryExec2 = (\<lambda>sql. Inr one_row)\<rparr>"

definition unreachable :: "nat exec_env" where
  \<comment> \<open>a warehouse that fails every statement\<close>
  "unreachable = \<lparr>tryExec0 = (\<lambda>sql. Inl ''down''), repair1 = (\<lambda>sql err. Inr None),
              tryExec1 = (\<lambda>sql. Inl ''down''), repair2 = (\<lambda>sql err. Inr None),
              tryExec2 = (\<lambda>sql. Inl ''down'')\<rparr>"

definition first_call :: clock where
  "first_call = \<lparr>t_clean = 0, t_lookup = 1, t_store = 250\<rparr>"

definition one_minute_later :: clock where
  "one_minute_later = \<lparr>t_clean = 60000, t_lookup = 60001, t_store = 60250\<rparr>"

section \<open>Outcomes of the renderer\<close>

text \<open>
  A call of the macro expander, the join planner or the renderer either returns a value,
  throws, or has not returned within the recursion depth it was given: \<open>Some (Inr v)\<close>,
  \<open>Some (Inl e)\<close> and \<open>None\<close>. The error constructors stand for the messages of the
  source's \<open>throw\<close> statements; \<open>TypeError\<close> is the engine's error on reading a
  property of \<open>undefined\<close>.
\<close>

datatype render_error =
    CyclicMacro string
  | UnknownCurrentEntity string
  | FieldNotFound string string
  | MissingAlias string
  | EntityNotLoaded string
  | ExpectsSingleValue string
  | UnsupportedOperator string
  | UnsupportedMetric string
  | MeasureNotFound string string
  | MeasureRequiresSql string
  | UnsupportedMeasureType
  | NoBaseEntity
  | NoJoinPath string string
  | MetricNotFound string
  | NoTimeDimension string
  | TypeError

type_synonym 'a outcome = "(render_error + 'a) option"

definition ok :: "'a \<Rightarrow> 'a outcome" where
  "ok v = Some (Inr v)"

definition throw :: "render_error \<Rightarrow> 'a outcome" where
  "throw e = Some (Inl e)"

fun and_then :: "'a outcome \<Rightarrow> ('a \<Rightarrow> 'b outcome) \<Rightarrow> 'b outcome" where
  "and_then None f = None"
| "and_then (Some (Inl e)) f = Some (Inl e)"
| "and_then (Some (Inr v)) f = f v"

fun for_each :: "('a \<Rightarrow> 'b outcome) \<Rightarrow> 'a list \<Rightarrow> 'b list outcome" where
  \<comment> \<open>a loop that pushes one result per element and stops at the first throw\<close>
  "for_each f [] = ok []"
| "for_each f (x # xs) = and_then (f x) (\<lambda>y. and_then (for_each f xs) (\<lambda>ys. ok (y # ys)))"

fun join_with :: "string \<Rightarrow> string list \<Rightarrow> string" where
  \<comment> \<open>\<open>Array.prototype.join\<close>\<close>
  "join_with sep [] = []"
| "join_with sep [x] = x"
| "join_with sep (x # y # ys) = x @ sep @ join_with sep (y # ys)"

section \<open>Macro expander (lib/sql/macros.ts)\<close>

record MacroContext =
  currentEntity :: string
  aliasByEntity :: "string \<rightharpoonup> string"
  registry :: Registry

definition match_CUBE_RE :: "string \<Rightarrow> string option" where
  \<comment> \<open>\<open>/^\{CUBE\}\.([A-Za-z0-9_]+)$/\<close>, giving the group\<close>
  "match_CUBE_RE expr =
     (if starts_with ''{CUBE}.'' expr \<and> drop 7 expr \<noteq> [] \<and> list_all is_word_char (drop 7 expr)
      then Some (drop 7 expr) else None)"

definition match_SAME_ENTITY_FIELD_RE :: "string \<Rightarrow> string option" where
  \<comment> \<open>\<open>/^\{([A-Za-z0-9_]+)\}$/\<close>\<close>
  "match_SAME_ENTITY_FIELD_RE expr =
     (case expr of
        [] \<Rightarrow> None
      | c # r \<Rightarrow>
          (let f = takeWhile is_word_char r
           in if c = CHR ''{'' \<and> f \<noteq> [] \<and> drop (length f) r = ''}'' then Some f else None))"

definition match_OTHER_ENTITY_FIELD_RE :: "string \<Rightarrow> (string \<times> string) option" where
  \<comment> \<open>\<open>/^\{([A-Za-z0-9_]+)\.([A-Za-z0-9_]+)\}$/\<close>\<close>
  "match_OTHER_ENTITY_FIELD_RE expr =
     (case expr of
        [] \<Rightarrow> None
      | c # r \<Rightarrow>
          (let e = takeWhile is_word_char r;
               r1 = drop (length e) r;
               f = takeWhile is_word_char (drop 1 r1)
           in if c = CHR ''{'' \<and> e \<noteq> [] \<and> starts_with ''.'' r1 \<and> f \<noteq> [] \<and>
                 drop (length f) (drop 1 r1) = ''}''
              then Some (e, f) else None))"

definition cube_token_at :: "string \<Rightarrow> (string \<times> nat) option" where
  \<comment> \<open>a match of \<open>/\{CUBE\}\.([A-Za-z0-9_]+)/\<close> at the head: the group and the length of
      the match\<close>
  "cube_token_at s =
     (let f = takeWhile is_word_char (drop 7 s)
      in if starts_with ''{CUBE}.'' s \<and> f \<noteq> [] then Some (f, 7 + length f) else None)"

definition entity_field_token_at :: "string \<Rightarrow> ((string \<times> string) \<times> nat) option" where
  \<comment> \<open>a match of \<open>/\{([A-Za-z0-9_]+)\.([A-Za-z0-9_]+)\}/\<close> at the head\<close>
  "entity_field_token_at s =
     (let e = takeWhile is_word_char (drop 1 s);
          r1 = drop (1 + length e) s;
          f = takeWhile is_word_char (drop 1 r1)
      in if starts_with ''{'' s \<and> e \<noteq> [] \<and> starts_with ''.'' r1 \<and> f \<noteq> [] \<and>
            starts_with ''}'' (drop (1 + length f) r1)
         then Some ((e, f), length e + length f + 3) else None)"

definition field_token_at :: "string \<Rightarrow> (string \<times> nat) option" where
  \<comment> \<open>a match of \<open>/\{([A-Za-z0-9_]+)\}/\<close> at the head\<close>
  "field_token_at s =
     (let f = takeWhile is_word_char (drop 1 s)
      in if starts_with ''{'' s \<and> f \<noteq> [] \<and> starts_with ''}'' (drop (1 + length f) s)
         then Some (f, length f + 2) else None)"

fun replace_all ::
  "(string \<Rightarrow> ('g \<times> nat) option) \<Rightarrow> ('g \<Rightarrow> string outcome) \<Rightarrow> nat \<Rightarrow> string \<Rightarrow> string outcome" where
  \<comment> \<open>\<open>s.replace(/re/g, callback)\<close>: matches are found left to right in the original
      string, the callback runs for each in turn, and a throw of the callback ends the
      call; the counter is the number of characters of the last match still to skip\<close>
  "replace_all tok cb k [] = ok []"
| "replace_all tok cb (Suc k) (c # cs) = replace_all tok cb k cs"
| "replace_all tok cb 0 (c # cs) =
     (case tok (c # cs) of
        Some (g, len) \<Rightarrow>
          and_then (cb g) (\<lambda>rep.
          and_then (replace_all tok cb (len - 1) cs) (\<lambda>rest. ok (rep @ rest)))
      | None \<Rightarrow> and_then (replace_all tok cb 0 cs) (\<lambda>rest. ok (c # rest)))"

definition time_dimension_as_dimension :: "TimeDimensionRaw \<Rightarrow> DimensionRaw" where
  "time_dimension_as_dimension td =
     \<lparr>dim_name = td_name td, dim_sql = td_sql td, dim_type = ''time'', dim_aliases = []\<rparr>"

definition resolveCanonicalField :: "EntityJson \<Rightarrow> string \<Rightarrow> DimensionRaw option" where
  "resolveCanonicalField entity nameOrAlias =
     (case dimIndex entity nameOrAlias of
        Some d \<Rightarrow> Some d
      | None \<Rightarrow>
         (case find (\<lambda>td. td_name td = nameOrAlias) (time_dimensions entity) of
            Some timeDim \<Rightarrow> Some (time_dimension_as_dimension timeDim)
          | None \<Rightarrow>
             (case reverseAliasIndex entity nameOrAlias of
                None \<Rightarrow> None
              | Some canonical \<Rightarrow>
                 if canonical = [] then None
                 else (case dimIndex entity canonical of
                         Some d \<Rightarrow> Some d
                       | None \<Rightarrow>
                          map_option time_dimension_as_dimension
                            (find (\<lambda>t. td_name t = canonical) (time_dimensions entity))))))"

definition alias_of :: "MacroContext \<Rightarrow> string \<Rightarrow> string option" where
  \<comment> \<open>\<open>ctx.aliasByEntity.get(e)\<close> as the test \<open>if (!alias)\<close> reads it: the empty string
      counts as missing\<close>
  "alias_of ctx e =
     (case aliasByEntity ctx e of None \<Rightarrow> None | Some a \<Rightarrow> if a = [] then None else Some a)"

definition expand_field ::
  "(string \<Rightarrow> MacroContext \<Rightarrow> string list \<Rightarrow> string outcome) \<Rightarrow>
   MacroContext \<Rightarrow> string list \<Rightarrow> string \<Rightarrow> string outcome" where
  \<comment> \<open>a reference \<open>{CUBE}.field\<close> or \<open>{field}\<close> to the current entity; the first argument
      is the recursive call\<close>
  "expand_field recur ctx stack field =
     (case map_of (registry ctx) (currentEntity ctx) of
        None \<Rightarrow> throw (UnknownCurrentEntity (currentEntity ctx))
      | Some ent \<Rightarrow>
         (case resolveCanonicalField ent field of
            None \<Rightarrow> throw (FieldNotFound field (ent_name ent))
          | Some dim \<Rightarrow>
             (case match_CUBE_RE (dim_sql dim) of
                Some col \<Rightarrow>
                  (case alias_of ctx (currentEntity ctx) of
                     None \<Rightarrow> throw (MissingAlias (currentEntity ctx))
                   | Some alias \<Rightarrow> ok (alias @ ''.'' @ col))
              | None \<Rightarrow> recur (dim_sql dim) ctx (stack @ [ent_name ent @ ''.'' @ field]))))"

definition expand_field_or_CUBE ::
  "(string \<Rightarrow> MacroContext \<Rightarrow> string list \<Rightarrow> string outcome) \<Rightarrow>
   MacroContext \<Rightarrow> string list \<Rightarrow> string \<Rightarrow> string outcome" where
  \<comment> \<open>a token \<open>{field}\<close> inside a larger expression: as \<open>expand_field\<close>, but a bare
      \<open>{CUBE}\<close> that names no field is the alias of the current entity\<close>
  "expand_field_or_CUBE recur ctx stack field =
     (case map_of (registry ctx) (currentEntity ctx) of
        None \<Rightarrow> throw (UnknownCurrentEntity (currentEntity ctx))
      | Some ent \<Rightarrow>
         (case resolveCanonicalField ent field of
            None \<Rightarrow>
              if field = ''CUBE'' then
                (case alias_of ctx (currentEntity ctx) of
                   None \<Rightarrow> throw (MissingAlias (currentEntity ctx))
                 | Some alias \<Rightarrow> ok alias)
              else throw (FieldNotFound field (ent_name ent))
          | Some dim \<Rightarrow>
             (case match_CUBE_RE (dim_sql dim) of
                Some col \<Rightarrow>
                  (case alias_of ctx (currentEntity ctx) of
                     None \<Rightarrow> throw (MissingAlias (currentEntity ctx))
                   | Some alias \<Rightarrow> ok (alias @ ''.'' @ col))
              | None \<Rightarrow> recur (dim_sql dim) ctx (stack @ [ent_name ent @ ''.'' @ field]))))"

definition expand_entity_field ::
  "(string \<Rightarrow> MacroContext \<Rightarrow> string list \<Rightarrow> string outcome) \<Rightarrow>
   MacroContext \<Rightarrow> string list \<Rightarrow> string \<times> string \<Rightarrow> string outcome" where
  \<comment> \<open>a reference \<open>{entity.field}\<close>\<close>
  "expand_entity_field recur ctx stack ef = (case ef of (entityName, field) \<Rightarrow>
     (case map_of (registry ctx) entityName of
        None \<Rightarrow> throw (EntityNotLoaded entityName)
      | Some ent \<Rightarrow>
         (case resolveCanonicalField ent field of
            None \<Rightarrow> throw (FieldNotFound field entityName)
          | Some dim \<Rightarrow>
             (case alias_of ctx entityName of
                None \<Rightarrow> throw (MissingAlias entityName)
              | Some alias \<Rightarrow>
                 (case match_CUBE_RE (dim_sql dim) of
                    Some col \<Rightarrow> ok (alias @ ''.'' @ col)
                  | None \<Rightarrow>
                     recur (dim_sql dim) (ctx\<lparr>currentEntity := entityName\<rparr>)
                       (stack @ [entityName @ ''.'' @ field]))))))"

primrec expandSqlExpression ::
  "nat \<Rightarrow> string \<Rightarrow> MacroContext \<Rightarrow> string list \<Rightarrow> string outcome" where
  \<comment> \<open>the first argument bounds the depth of the recursion\<close>
  "expandSqlExpression 0 = (\<lambda>expr ctx stack. None)"
| "expandSqlExpression (Suc n) = (\<lambda>expr ctx stack.
     if expr \<in> set stack then throw (CyclicMacro expr)
     else
       (case match_CUBE_RE expr of
          Some field \<Rightarrow> expand_field (expandSqlExpression n) ctx stack field
        | None \<Rightarrow>
           (case match_SAME_ENTITY_FIELD_RE expr of
              Some field \<Rightarrow> expand_field (expandSqlExpression n) ctx stack field
            | None \<Rightarrow>
               (case match_OTHER_ENTITY_FIELD_RE expr of
                  Some ef \<Rightarrow> expand_entity_field (expandSqlExpression n) ctx stack ef
                | None \<Rightarrow>
                   and_then (replace_all cube_token_at
                               (expand_field (expandSqlExpression n) ctx stack) 0 expr)
                     (\<lambda>r1.
                   and_then (replace_all entity_field_token_at
                               (expand_entity_field (expandSqlExpression n) ctx stack) 0 r1)
                     (\<lambda>r2.
                   replace_all field_token_at
                     (expand_field_or_CUBE (expandSqlExpression n) ctx stack) 0 r2))))))"

definition qualifySimpleColumn ::
  "string \<Rightarrow> string \<Rightarrow> MacroContext \<Rightarrow> render_error + string" where
  "qualifySimpleColumn expr entityName ctx =
     (case match_CUBE_RE expr of
        Some col \<Rightarrow>
          (case alias_of ctx entityName of
             None \<Rightarrow> Inl (MissingAlias entityName)
           | Some alias \<Rightarrow> Inr (alias @ ''.'' @ [CHR 0x22] @ col @ [CHR 0x22]))
      | None \<Rightarrow>
         (case match_OTHER_ENTITY_FIELD_RE expr of
            Some (e, col) \<Rightarrow>
              (case alias_of ctx e of
                 None \<Rightarrow> Inl (MissingAlias e)
               | Some alias \<Rightarrow> Inr (alias @ ''.'' @ [CHR 0x22] @ col @ [CHR 0x22]))
          | None \<Rightarrow> Inr expr))"

section \<open>Join planner (lib/sql/joins.ts)\<close>

text \<open>
  A \<open>GraphEdge\<close> and the \<open>JoinEdge\<close> made from it have the same fields (\<open>a\<close>, \<open>b\<close> are
  \<open>from\<close>, \<open>to\<close>); one record stands for both. The graph and the map \<open>prev\<close> are only
  read by key. Strings are ordered by code units, as \<open>Array.prototype.sort\<close> orders them.
\<close>

record GraphEdge =
  ge_a :: string
  ge_b :: string
  ge_fromField :: string
  ge_toField :: string
  ge_relationship :: relationship

type_synonym graph = "string \<rightharpoonup> GraphEdge list"

definition edges_of :: "graph \<Rightarrow> string \<Rightarrow> GraphEdge list" where
  \<comment> \<open>\<open>g.get(u) ?? []\<close>\<close>
  "edges_of g u = (case g u of Some es \<Rightarrow> es | None \<Rightarrow> [])"

definition ensure_node :: "string \<Rightarrow> graph \<Rightarrow> graph" where
  \<comment> \<open>\<open>if (!g.has(n)) g.set(n, [])\<close>\<close>
  "ensure_node n g = (if g n = None then g(n \<mapsto> []) else g)"

definition add_join :: "string \<Rightarrow> JoinRaw \<Rightarrow> graph \<Rightarrow> graph" where
  "add_join name j g =
     (let edge = \<lparr>ge_a = name, ge_b = target_entity j, ge_fromField = join_from j,
                  ge_toField = join_to j, ge_relationship = join_relationship j\<rparr>;
          back = \<lparr>ge_a = target_entity j, ge_b = name, ge_fromField = join_to j,
                  ge_toField = join_from j, ge_relationship = join_relationship j\<rparr>;
          g1 = ensure_node (target_entity j) g;
          g2 = g1(name \<mapsto> edges_of g1 name @ [edge])
      in g2(target_entity j \<mapsto> edges_of g2 (target_entity j) @ [back]))"

definition buildGraph :: "Registry \<Rightarrow> graph" where
  "buildGraph entities =
     fold (\<lambda>ne g. fold (add_join (fst ne)) (joins (snd ne)) (ensure_node (fst ne) g))
       entities Map.empty"

record prev_entry =
  pe_node :: string
  pe_edge :: "GraphEdge option"

datatype visit =
    Found "string \<rightharpoonup> prev_entry"
  | Continue "string list" "string \<rightharpoonup> prev_entry"

fun visit_edges ::
  "string \<Rightarrow> string \<Rightarrow> GraphEdge list \<Rightarrow> string list \<Rightarrow> (string \<rightharpoonup> prev_entry) \<Rightarrow> visit" where
  \<comment> \<open>the \<open>for\<close> loop over the edges of \<open>u\<close>; \<open>Found\<close> when the goal is reached\<close>
  "visit_edges goal u [] q prev = Continue q prev"
| "visit_edges goal u (e # es) q prev =
     (let v = ge_b e
      in if prev v \<noteq> None then visit_edges goal u es q prev
         else
           let prev' = prev(v \<mapsto> \<lparr>pe_node = u, pe_edge = Some e\<rparr>)
           in if v = goal then Found prev' else visit_edges goal u es (q @ [v]) prev')"

fun reconstruct ::
  "nat \<Rightarrow> (string \<rightharpoonup> prev_entry) \<Rightarrow> string \<Rightarrow> string \<Rightarrow> GraphEdge list \<Rightarrow>
   GraphEdge list outcome" where
  \<comment> \<open>the loop \<open>while (cur !== start)\<close>, with the steps it may still take; a missing
      entry or edge is a \<open>TypeError\<close>\<close>
  "reconstruct 0 prev start cur path = None"
| "reconstruct (Suc n) prev start cur path =
     (if cur = start then ok path
      else (case prev cur of
              None \<Rightarrow> throw TypeError
            | Some p \<Rightarrow>
               (case pe_edge p of
                  None \<Rightarrow> throw TypeError
                | Some e \<Rightarrow> reconstruct n prev start (pe_node p) (path @ [e]))))"

fun bfs ::
  "nat \<Rightarrow> nat \<Rightarrow> graph \<Rightarrow> string \<Rightarrow> string \<Rightarrow> string list \<Rightarrow> (string \<rightharpoonup> prev_entry) \<Rightarrow>
   GraphEdge list option outcome" where
  \<comment> \<open>the loop \<open>while (q.length)\<close>, with the iterations it may still make (first
      argument) and the steps the path reconstruction may take (second)\<close>
  "bfs 0 m g start goal q prev = None"
| "bfs (Suc n) m g start goal [] prev = ok None"
| "bfs (Suc n) m g start goal (u # q) prev =
     (case visit_edges goal u (edges_of g u) q prev of
        Found prev' \<Rightarrow>
          and_then (reconstruct m prev' start goal []) (\<lambda>path. ok (Some (rev path)))
      | Continue q' prev' \<Rightarrow> bfs n m g start goal q' prev')"

definition shortestPath ::
  "nat \<Rightarrow> graph \<Rightarrow> string \<Rightarrow> string \<Rightarrow> GraphEdge list option outcome" where
  \<comment> \<open>\<open>ok None\<close> is the result \<open>null\<close>\<close>
  "shortestPath n g start goal =
     (if start = goal then ok (Some [])
      else bfs n n g start goal [start] [start \<mapsto> \<lparr>pe_node = start, pe_edge = None\<rparr>])"

definition edge_key :: "GraphEdge \<Rightarrow> string" where
  "edge_key e = ge_a e @ ''->'' @ ge_b e @ '':'' @ ge_fromField e @ ''='' @ ge_toField e"

definition add_unseen ::
  "GraphEdge \<Rightarrow> GraphEdge list \<times> string set \<Rightarrow> GraphEdge list \<times> string set" where
  "add_unseen e acc = (case acc of (edges, seenPairs) \<Rightarrow>
     if edge_key e \<in> seenPairs then acc else (edges @ [e], insert (edge_key e) seenPairs))"

fun collect_paths ::
  "nat \<Rightarrow> graph \<Rightarrow> string \<Rightarrow> string list \<Rightarrow> GraphEdge list \<times> string set \<Rightarrow>
   GraphEdge list outcome" where
  \<comment> \<open>the loop over the required entities\<close>
  "collect_paths n g baseEntity [] acc = ok (fst acc)"
| "collect_paths n g baseEntity (target # targets) acc =
     (if target = baseEntity then collect_paths n g baseEntity targets acc
      else
        and_then (shortestPath n g baseEntity target) (\<lambda>p.
          case p of
            None \<Rightarrow> throw (NoJoinPath baseEntity target)
          | Some path \<Rightarrow> collect_paths n g baseEntity targets (fold add_unseen path acc)))"

fun dedupe :: "'a list \<Rightarrow> 'a list" where
  \<comment> \<open>\<open>Array.from(new Set(xs))\<close>: the first occurrence of each element, in order\<close>
  "dedupe [] = []"
| "dedupe (x # xs) = x # filter (\<lambda>y. y \<noteq> x) (dedupe xs)"

record JoinPathResult =
  jp_edges :: "GraphEdge list"
  jp_aliasByEntity :: "string \<rightharpoonup> string"
  jp_orderedEntities :: "string list"

definition computeJoinPath ::
  "nat \<Rightarrow> string \<Rightarrow> string list \<Rightarrow> Registry \<Rightarrow> JoinPathResult outcome" where
  "computeJoinPath n baseEntity requiredEntities reg =
     and_then (collect_paths n (buildGraph reg) baseEntity requiredEntities ([], {}))
       (\<lambda>edges.
          let entitySet = dedupe (baseEntity # concat (map (\<lambda>e. [ge_a e, ge_b e]) edges));
              others = sort (filter (\<lambda>n. n \<noteq> baseEntity) entitySet);
              orderedEntities = baseEntity # others;
              aliases = fold (\<lambda>ni m. m(fst ni \<mapsto> ''t'' @ string_of_nat (snd ni)))
                          (zip orderedEntities [0 ..< length orderedEntities]) Map.empty
          in ok \<lparr>jp_edges = edges, jp_aliasByEntity = aliases,
                 jp_orderedEntities = orderedEntities\<rparr>)"

section \<open>SQL renderer (lib/sql/render.ts)\<close>

text \<open>
  The plan is the part of \<open>FinalizedPlan\<close> the renderer reads. The arrays of the intent
  are never absent after schema validation. An absent \<open>start\<close> or \<open>end\<close> of a time range
  prints as \<open>undefined\<close> in the template string.
\<close>

record TimeRange =
  tr_start :: "string option"
  tr_end :: "string option"

record Intent =
  intent_metrics :: "string list"
  intent_dimensions :: "string list"
  intent_filters :: "string list"
  intent_structuredFilters :: "MetricFilterRaw list"
  intent_timeRange :: "TimeRange option"

record FinalizedPlan =
  plan_intent :: Intent
  selectedEntities :: "string list"

definition nl :: string where
  "nl = [CHR 0x0A]"

definition dq :: string where
  "dq = [CHR 0x22]"

definition sq :: string where
  "sq = [CHR 0x27]"

definition findMetric :: "EntityJson \<Rightarrow> string \<Rightarrow> MetricRaw option" where
  "findMetric ent nameOrAlias =
     (case metricIndex ent nameOrAlias of
        Some m \<Rightarrow> Some m
      | None \<Rightarrow>
         (case reverseAliasIndex ent nameOrAlias of
            None \<Rightarrow> None
          | Some canonical \<Rightarrow> if canonical = [] then None else metricIndex ent canonical))"

definition findMeasure :: "EntityJson \<Rightarrow> string \<Rightarrow> MeasureRaw option" where
  "findMeasure ent name = measureIndex ent name"

definition asSqlLiteral :: "js_value \<Rightarrow> string" where
  "asSqlLiteral v =
     (case v of
        VNumber text \<Rightarrow> text
      | VBoolean b \<Rightarrow> (if b then ''TRUE'' else ''FALSE'')
      | VString s \<Rightarrow> sq @ escape_quotes s @ sq
      | VOther text \<Rightarrow> sq @ escape_quotes text @ sq)"

definition scalar_operators :: "string list" where
  "scalar_operators = [''='', ''!='', ''>'', ''>='', ''<'', ''<='']"

definition buildPredicate :: "nat \<Rightarrow> MetricFilterRaw \<Rightarrow> MacroContext \<Rightarrow> string outcome" where
  "buildPredicate n flt ctx =
     and_then (expandSqlExpression n (''{'' @ flt_field flt @ ''}'') ctx []) (\<lambda>fieldSql.
       let op = flt_operator flt; vs = flt_values flt
       in if op = ''in'' \<or> op = ''not_in''
          then ok (fieldSql @ '' '' @ (if op = ''in'' then ''IN'' else ''NOT IN'') @ '' ('' @
                   join_with '', '' (map asSqlLiteral vs) @ '')'')
          else if length vs \<noteq> 1 then throw (ExpectsSingleValue op)
          else if op \<in> set scalar_operators
          then ok (fieldSql @ '' '' @ op @ '' '' @ asSqlLiteral (hd vs))
          else throw (UnsupportedOperator op))"

definition measure_keyword :: "measure_type \<Rightarrow> string" where
  \<comment> \<open>\<open>measure.type.toUpperCase()\<close>\<close>
  "measure_keyword t =
     (case t of MCount \<Rightarrow> ''COUNT'' | MCountDistinct \<Rightarrow> ''COUNT_DISTINCT'' | MSum \<Rightarrow> ''SUM''
      | MAvg \<Rightarrow> ''AVG'' | MMin \<Rightarrow> ''MIN'' | MMax \<Rightarrow> ''MAX'' | MNumber \<Rightarrow> ''NUMBER'')"

definition buildAgg :: "nat \<Rightarrow> MeasureRaw \<Rightarrow> string \<Rightarrow> MacroContext \<Rightarrow> string outcome" where
  "buildAgg n meas hostName ctx =
     and_then
       (case meas_sql meas of
          None \<Rightarrow> ok None
        | Some s \<Rightarrow>
            if s = [] then ok None
            else and_then (expandSqlExpression n s (ctx\<lparr>currentEntity := hostName\<rparr>) [])
                   (\<lambda>x. ok (Some x)))
       (\<lambda>sqlExpr.
          let missing = (sqlExpr = None \<or> sqlExpr = Some [])
          in case meas_type meas of
               MCount \<Rightarrow> ok ''COUNT(*)''
             | MCountDistinct \<Rightarrow>
                 if missing then throw (MeasureRequiresSql (meas_name meas))
                 else ok (''COUNT(DISTINCT '' @ the sqlExpr @ '')'')
             | MNumber \<Rightarrow> throw UnsupportedMeasureType
             | _ \<Rightarrow>
                 if missing then throw (MeasureRequiresSql (meas_name meas))
                 else ok (measure_keyword (meas_type meas) @ ''('' @ the sqlExpr @ '')''))"

definition buildMetricExpr ::
  "nat \<Rightarrow> MetricRaw \<Rightarrow> EntityJson \<Rightarrow> MacroContext \<Rightarrow> string outcome" where
  "buildMetricExpr n metric hostEntity ctx =
     (case (if met_type metric = Atomic then met_source metric else None) of
        None \<Rightarrow> throw (UnsupportedMetric (met_name metric))
      | Some source \<Rightarrow>
         (case findMeasure hostEntity (src_measure source) of
            None \<Rightarrow> throw (MeasureNotFound (src_measure source) (ent_name hostEntity))
          | Some meas \<Rightarrow>
             and_then (buildAgg n meas (ent_name hostEntity) ctx) (\<lambda>agg.
               if src_filters source = [] then ok agg
               else
                 and_then (for_each (\<lambda>f. buildPredicate n f ctx) (src_filters source)) (\<lambda>preds.
                   let pred = (if length preds = 1 then hd preds
                               else ''('' @ join_with '') AND ('' preds @ '')'')
                   in if meas_type meas = MCount then ok (''COUNT_IF('' @ pred @ '')'')
                      else
                        and_then
                          (expandSqlExpression n (case meas_sql meas of Some s \<Rightarrow> s | None \<Rightarrow> [])
                             (ctx\<lparr>currentEntity := ent_name hostEntity\<rparr>) [])
                          (\<lambda>sqlExpr.
                             if meas_type meas = MCountDistinct
                             then ok (''COUNT(DISTINCT IFF('' @ pred @ '', '' @ sqlExpr @ '', NULL))'')
                             else ok (measure_keyword (meas_type meas) @ ''(IFF('' @ pred @
                                      '', '' @ sqlExpr @ '', NULL))''))))))"

definition resolveDimensionExpr ::
  "nat \<Rightarrow> string \<Rightarrow> string \<Rightarrow> MacroContext \<Rightarrow> string outcome" where
  "resolveDimensionExpr n field currentEntityName ctx =
     expandSqlExpression n (''{'' @ field @ ''}'') (ctx\<lparr>currentEntity := currentEntityName\<rparr>) []"

definition last_segment :: "string \<Rightarrow> string" where
  \<comment> \<open>\<open>dim.includes('.') ? dim.split('.').slice(-1)[0] : dim\<close>\<close>
  "last_segment dim = rev (takeWhile (\<lambda>c. c \<noteq> CHR ''.'') (rev dim))"

definition select_dimension :: "nat \<Rightarrow> string \<Rightarrow> MacroContext \<Rightarrow> string \<Rightarrow> string outcome" where
  "select_dimension n base ctx dim =
     and_then (resolveDimensionExpr n dim base ctx) (\<lambda>expr.
       ok (expr @ '' AS '' @ dq @ last_segment dim @ dq))"

fun find_host ::
  "(EntityJson \<Rightarrow> 'a option) \<Rightarrow> Registry \<Rightarrow> string list \<Rightarrow> (EntityJson \<times> 'a) option outcome" where
  \<comment> \<open>a loop over \<open>jp.orderedEntities\<close> that stops at the first entity where the lookup
      finds something; an entity that is not in the registry is a \<open>TypeError\<close>\<close>
  "find_host look reg [] = ok None"
| "find_host look reg (e # es) =
     (case map_of reg e of
        None \<Rightarrow> throw TypeError
      | Some ent \<Rightarrow>
         (case look ent of
            Some x \<Rightarrow> ok (Some (ent, x))
          | None \<Rightarrow> find_host look reg es))"

definition synthetic_metric :: "string \<Rightarrow> EntityJson \<Rightarrow> MetricRaw" where
  "synthetic_metric mname ent =
     \<lparr>met_name = ''__measure_'' @ mname, met_type = Atomic,
      met_source = Some \<lparr>src_measure = mname,
        src_anchor_date = (case time_dimensions ent of td # _ \<Rightarrow> td_name td
                           | [] \<Rightarrow> ''created_on''),
        src_filters = []\<rparr>,
      met_aliases = []\<rparr>"

definition select_metric ::
  "nat \<Rightarrow> JoinPathResult \<Rightarrow> Registry \<Rightarrow> MacroContext \<Rightarrow> string \<Rightarrow> string outcome" where
  "select_metric n jp reg ctx mname =
     and_then (find_host (\<lambda>ent. findMetric ent mname) reg (jp_orderedEntities jp)) (\<lambda>asMetric.
     and_then
       (case asMetric of
          Some hm \<Rightarrow> ok (Some hm)
        | None \<Rightarrow>
            and_then (find_host (\<lambda>ent. findMeasure ent mname) reg (jp_orderedEntities jp))
              (\<lambda>asMeasure. ok (map_option (\<lambda>hm. (fst hm, synthetic_metric mname (fst hm)))
                                  asMeasure)))
       (\<lambda>found.
          case found of
            None \<Rightarrow> throw (MetricNotFound mname)
          | Some (host, metricObj) \<Rightarrow>
              and_then (buildMetricExpr n metricObj host (ctx\<lparr>currentEntity := ent_name host\<rparr>))
                (\<lambda>expr. ok (expr @ '' AS '' @ dq @ mname @ dq))))"

definition join_clause ::
  "JoinPathResult \<Rightarrow> Registry \<Rightarrow> MacroContext \<Rightarrow> GraphEdge \<Rightarrow> string outcome" where
  "join_clause jp reg ctx e =
     (let rightAlias = (case jp_aliasByEntity jp (ge_b e) of Some a \<Rightarrow> a | None \<Rightarrow> ''undefined'')
      in case qualifySimpleColumn (''{CUBE}.'' @ ge_fromField e) (ge_a e)
                (ctx\<lparr>currentEntity := ge_a e\<rparr>) of
           Inl err \<Rightarrow> throw err
         | Inr leftCol \<Rightarrow>
            (case qualifySimpleColumn (''{CUBE}.'' @ ge_toField e) (ge_b e)
                    (ctx\<lparr>currentEntity := ge_b e\<rparr>) of
               Inl err \<Rightarrow> throw err
             | Inr rightCol \<Rightarrow>
                (case map_of reg (ge_b e) of
                   None \<Rightarrow> throw TypeError
                 | Some right \<Rightarrow>
                    ok ((if ge_relationship e = ManyToMany then ''INNER JOIN'' else ''LEFT JOIN'')
                        @ '' '' @ ent_table right @ '' '' @ rightAlias @ '' ON '' @ leftCol
                        @ '' = '' @ rightCol))))"

definition template_text :: "string option \<Rightarrow> string" where
  \<comment> \<open>a string, or \<open>undefined\<close>, inside a template literal\<close>
  "template_text v = (case v of Some s \<Rightarrow> s | None \<Rightarrow> ''undefined'')"

definition time_predicate :: "string \<Rightarrow> TimeRange \<Rightarrow> string" where
  "time_predicate tExpr r =
     tExpr @ '' >= '' @ sq @ template_text (tr_start r) @ sq @ '' AND '' @ tExpr @ '' < '' @ sq
       @ template_text (tr_end r) @ sq"

definition where_time ::
  "nat \<Rightarrow> FinalizedPlan \<Rightarrow> Registry \<Rightarrow> string \<Rightarrow> MacroContext \<Rightarrow> string list outcome" where
  "where_time n plan reg base ctx =
     (case intent_timeRange (plan_intent plan) of
        None \<Rightarrow> ok []
      | Some r \<Rightarrow>
         (case map_of reg base of
            None \<Rightarrow> throw TypeError
          | Some ent \<Rightarrow>
             (case time_dimensions ent of
                [] \<Rightarrow> throw (NoTimeDimension base)
              | tdim # _ \<Rightarrow>
                 and_then (expandSqlExpression n (td_sql tdim) ctx []) (\<lambda>tExpr.
                   ok [time_predicate tExpr r]))))"

fun close_comment :: "string \<Rightarrow> string" where
  \<comment> \<open>\<open>ff.replace(/\*\//g, '* /')\<close>\<close>
  "close_comment (c # d # cs) =
     (if c = CHR ''*'' \<and> d = CHR ''/'' then ''* /'' @ close_comment cs
      else c # close_comment (d # cs))"
| "close_comment cs = cs"

definition user_filter_comment :: "string \<Rightarrow> string" where
  "user_filter_comment ff = ''/* user_filter: '' @ close_comment ff @ '' */''"

definition render_parts ::
  "string list \<Rightarrow> string \<Rightarrow> string list \<Rightarrow> string list \<Rightarrow> nat \<Rightarrow> string list" where
  \<comment> \<open>the array \<open>parts\<close>\<close>
  "render_parts selectCols fromLine joinLines whereLines dimCount =
     [''SELECT'']
     @ [if selectCols \<noteq> [] then ''  '' @ join_with ('','' @ nl @ ''  '') selectCols
        else ''  1 AS dummy'']
     @ [fromLine]
     @ (if joinLines \<noteq> [] then [join_with nl joinLines] else [])
     @ (if whereLines \<noteq> [] then [''WHERE '' @ join_with (nl @ ''  AND '') whereLines] else [])
     @ (if dimCount > 0
        then [''GROUP BY '' @ join_with '', '' (map string_of_nat [1 ..< Suc dimCount])]
        else [])
     @ [''LIMIT 1001'']"

definition select_list ::
  "nat \<Rightarrow> FinalizedPlan \<Rightarrow> JoinPathResult \<Rightarrow> Registry \<Rightarrow> string \<Rightarrow> MacroContext \<Rightarrow>
   string list outcome" where
  \<comment> \<open>step 3: the array \<open>selectCols\<close>, dimensions then metrics\<close>
  "select_list n plan jp reg base ctx =
     and_then (for_each (select_dimension n base ctx) (intent_dimensions (plan_intent plan)))
       (\<lambda>dimCols.
     and_then (for_each (select_metric n jp reg ctx) (intent_metrics (plan_intent plan)))
       (\<lambda>metricCols. ok (dimCols @ metricCols)))"

definition from_and_joins ::
  "JoinPathResult \<Rightarrow> Registry \<Rightarrow> string \<Rightarrow> MacroContext \<Rightarrow> (string \<times> string list) outcome" where
  \<comment> \<open>step 4: \<open>from\<close> and the array \<open>joins\<close>\<close>
  "from_and_joins jp reg base ctx =
     (case map_of reg base of
        None \<Rightarrow> throw TypeError
      | Some ent \<Rightarrow>
         and_then (for_each (join_clause jp reg ctx) (jp_edges jp)) (\<lambda>joinLines.
           ok (''FROM '' @ ent_table ent @ '' '' @ template_text (jp_aliasByEntity jp base),
               joinLines)))"

definition where_lines ::
  "nat \<Rightarrow> FinalizedPlan \<Rightarrow> Registry \<Rightarrow> string \<Rightarrow> MacroContext \<Rightarrow> string list outcome" where
  \<comment> \<open>step 5: the array \<open>where\<close>: time range, structured filters, free-form filters as
      comments\<close>
  "where_lines n plan reg base ctx =
     and_then (where_time n plan reg base ctx) (\<lambda>timeLines.
     and_then (for_each (\<lambda>f. buildPredicate n f ctx)
                 (intent_structuredFilters (plan_intent plan)))
       (\<lambda>filterLines.
          ok (timeLines @ filterLines
              @ map user_filter_comment (intent_filters (plan_intent plan)))))"

definition render_ctx :: "string \<Rightarrow> JoinPathResult \<Rightarrow> Registry \<Rightarrow> MacroContext" where
  \<comment> \<open>the context \<open>ctx\<close> of the renderer\<close>
  "render_ctx base jp reg =
     \<lparr>currentEntity = base, aliasByEntity = jp_aliasByEntity jp, registry = reg\<rparr>"

definition renderSQLFromPlan :: "nat \<Rightarrow> FinalizedPlan \<Rightarrow> Registry \<Rightarrow> string outcome" where
  "renderSQLFromPlan n plan reg =
     (case selectedEntities plan of
        [] \<Rightarrow> throw NoBaseEntity
      | base # _ \<Rightarrow>
         if base = [] then throw NoBaseEntity
         else
           and_then (computeJoinPath n base (dedupe (selectedEntities plan)) reg) (\<lambda>jp.
             let ctx = render_ctx base jp reg
             in
             and_then (select_list n plan jp reg base ctx) (\<lambda>selectCols.
             and_then (from_and_joins jp reg base ctx) (\<lambda>fj.
             and_then (where_lines n plan reg base ctx) (\<lambda>whereLines.
               ok (join_with nl
                     (render_parts selectCols (fst fj) (snd fj) whereLines
                        (length (intent_dimensions (plan_intent plan))))))))))"

section \<open>Concrete inputs\<close>

definition entity_of_raw :: "EntityYamlRaw \<Rightarrow> EntityJson" where
  \<comment> \<open>the entity \<open>loadEntityYaml\<close> builds from a descriptor\<close>
  "entity_of_raw r =
     \<lparr>ent_name = raw_name r, ent_table = raw_table r, dimensions = raw_dimensions r,
      time_dimensions = raw_time_dimensions r, ent_measures = raw_measures r,
      metrics = raw_metrics r, joins = raw_joins r,
      dimIndex = indexByName dim_name (raw_dimensions r),
      measureIndex = indexByName meas_name (raw_measures r),
      metricIndex = indexByName met_name (raw_metrics r),
      aliasIndex = fst (buildAliasIndexes r),
      reverseAliasIndex = snd (buildAliasIndexes r)\<rparr>"

definition cyclic_raw :: EntityYamlRaw where
  \<comment> \<open>two dimensions defined by each other\<close>
  "cyclic_raw =
     \<lparr>raw_name = ''e'', raw_table = ''main.e'', raw_aliases = [],
      raw_dimensions =
        [\<lparr>dim_name = ''a'', dim_sql = ''{b}'', dim_type = ''number'', dim_aliases = []\<rparr>,
         \<lparr>dim_name = ''b'', dim_sql = ''{a}'', dim_type = ''number'', dim_aliases = []\<rparr>],
      raw_time_dimensions = [], raw_measures = [], raw_metrics = [], raw_joins = []\<rparr>"

definition cyclic_ctx :: MacroContext where
  "cyclic_ctx = \<lparr>currentEntity = ''e'', aliasByEntity = [''e'' \<mapsto> ''t0''],
                 registry = [(''e'', entity_of_raw cyclic_raw)]\<rparr>"

definition accounts_ctx :: MacroContext where
  "accounts_ctx = \<lparr>currentEntity = ''accounts'', aliasByEntity = [''accounts'' \<mapsto> ''t0''],
                   registry = [(''accounts'', entity_of_raw accounts_raw)]\<rparr>"

definition companies_raw :: EntityYamlRaw where
  "companies_raw =
     \<lparr>raw_name = ''companies'', raw_table = ''main.companies'', raw_aliases = [],
      raw_dimensions =
        [\<lparr>dim_name = ''id'', dim_sql = ''{CUBE}.ID'', dim_type = ''number'', dim_aliases = []\<rparr>,
         \<lparr>dim_name = ''sector'', dim_sql = ''{CUBE}.SECTOR'', dim_type = ''string'',
          dim_aliases = []\<rparr>,
         \<lparr>dim_name = ''REVENUE'', dim_sql = ''{CUBE}.REVENUE'', dim_type = ''number'',
          dim_aliases = []\<rparr>,
         \<lparr>dim_name = ''industry'', dim_sql = ''UPPER({sector})'', dim_type = ''string'',
          dim_aliases = []\<rparr>],
      raw_time_dimensions = [],
      raw_measures =
        [\<lparr>meas_name = ''revenue'', meas_type = MSum, meas_sql = Some ''{CUBE}.REVENUE'',
          meas_aliases = []\<rparr>],
      raw_metrics = [], raw_joins = []\<rparr>"

definition demo_registry :: Registry where
  "demo_registry = [(''accounts'', entity_of_raw accounts_raw),
                    (''companies'', entity_of_raw companies_raw)]"

definition demo_plan :: FinalizedPlan where
  "demo_plan =
     \<lparr>plan_intent =
        \<lparr>intent_metrics = [''account_count'', ''revenue''],
         intent_dimensions = [''tier'', ''companies.industry''],
         intent_filters = [''only active */ accounts''],
         intent_structuredFilters =
           [\<lparr>flt_field = ''tier'', flt_operator = ''in'',
             flt_values = [VString ''pro'', VString (''o'' @ sq @ ''k'')]\<rparr>],
         intent_timeRange = Some \<lparr>tr_start = Some ''2025-03-26'', tr_end = Some ''2025-09-26''\<rparr>\<rparr>,
      selectedEntities = [''accounts'', ''companies'']\<rparr>"

definition demo_sql :: string where
  "demo_sql = join_with nl
     [''SELECT'',
      ''  t0.ACCOUNT_TIER AS '' @ dq @ ''tier'' @ dq @ '','',
      ''  UPPER(t1.SECTOR) AS '' @ dq @ ''industry'' @ dq @ '','',
      ''  COUNT(*) AS '' @ dq @ ''account_count'' @ dq @ '','',
      ''  SUM(t1.REVENUE) AS '' @ dq @ ''revenue'' @ dq,
      ''FROM main.accounts t0'',
      ''LEFT JOIN main.companies t1 ON t0.'' @ dq @ ''company_id'' @ dq @ '' = t1.'' @ dq
        @ ''id'' @ dq,
      ''WHERE t0.CREATED_AT >= '' @ sq @ ''2025-03-26'' @ sq @ '' AND t0.CREATED_AT < '' @ sq
        @ ''2025-09-26'' @ sq,
      ''  AND t0.ACCOUNT_TIER IN ('' @ sq @ ''pro'' @ sq @ '', '' @ sq @ ''o'' @ sq @ sq @ ''k''
        @ sq @ '')'',
      ''  AND /* user_filter: only active * / accounts */'',
      ''GROUP BY 1, 2'',
      ''LIMIT 1001'']"

definition no_intent :: Intent where
  "no_intent = \<lparr>intent_metrics = [], intent_dimensions = [], intent_filters = [],
                 intent_structuredFilters = [], intent_timeRange = None\<rparr>"

definition bare_plan :: FinalizedPlan where
  \<comment> \<open>a plan with no dimensions and no metrics\<close>
  "bare_plan = \<lparr>plan_intent = no_intent, selectedEntities = [''accounts'']\<rparr>"

definition time_ranged_plan :: FinalizedPlan where
  \<comment> \<open>no dimensions and no metrics, a time range, and a base entity without a time dimension\<close>
  "time_ranged_plan =
     \<lparr>plan_intent = no_intent\<lparr>intent_timeRange :=
                       Some \<lparr>tr_start = Some ''2024-01-01'', tr_end = Some ''2024-02-01''\<rparr>\<rparr>,
      selectedEntities = [''companies'']\<rparr>"


section \<open>Properties\<close>

subsection \<open>Helper lemmas on strings\<close>

lemma count_char_zero_iff: "count_char x s = 0 \<longleftrightarrow> x \<notin> set s"
  by (induction s) auto

lemma count_char_rev: "count_char x (rev s) = count_char x s"
proof -
  have app: "count_char x (a @ b) = count_char x a + count_char x b" for a b
    by (induction a) auto
  show ?thesis by (induction s) (auto simp: app)
qed

lemma count_char_dropWhile_le: "count_char x (dropWhile P s) \<le> count_char x s"
  by (induction s) auto

lemma count_char_trim_le: "count_char x (trim s) \<le> count_char x s"
  unfolding trim_def count_char_rev
  by (metis count_char_dropWhile_le count_char_rev le_trans)

lemma first_disallowed_None_iff:
  "first_disallowed ws sql = None \<longleftrightarrow> filter (\<lambda>w. word_test w sql) ws = []"
  by (induction ws) auto

lemma count_char_dropWhile: "\<not> P x \<Longrightarrow> count_char x (dropWhile P s) = count_char x s"
  by (induction s) auto

lemma count_char_trim: "\<not> is_space x \<Longrightarrow> count_char x (trim s) = count_char x s"
  by (simp add: trim_def count_char_rev count_char_dropWhile)

lemma semicolon_not_space: "\<not> is_space CHR '';''"
  by (simp add: is_space_def)

subsection \<open>C2: preflight guard versus syntax scan\<close>

text \<open>
  C2 (as stated): the preflight guard accepts a string exactly when the syntax scan
  reports ok on it. This fails in both directions: the syntax scan tolerates one
  trailing semicolon, which the preflight guard rejects, and the preflight guard accepts
  an unclosed block comment, which the syntax scan rejects.
\<close>

theorem C2_counterexample:
  "fst (syntaxScan ''SELECT 1;'') \<and> preflightGuard ''SELECT 1;'' = Inl MultiStatement \<and>
   preflightGuard ''SELECT 1 /*'' = Inr () \<and> \<not> fst (syntaxScan ''SELECT 1 /*'')"
  by code_simp

text \<open>
  C2 (amended): both checks apply the same disallowed-verb list to the raw string, and
  differ in the rest. The preflight guard accepts a string exactly when it contains no
  semicolon and no disallowed verb; it has no block-comment check. The syntax scan
  reports ok exactly when the string contains no semicolon, or exactly one and the
  trimmed string ends with it, and no disallowed verb, and as many \<open>/*\<close> as \<open>*/\<close>.
  So the preflight guard accepts a string with balanced block comments exactly when the
  syntax scan reports ok on it and it contains no semicolon.
\<close>

theorem C2_preflight_vs_syntaxScan:
  "(preflightGuard s = Inr ())
     = (count_char CHR '';'' s = 0 \<and> filter (\<lambda>w. word_test w s) DISALLOWED = []) \<and>
   fst (syntaxScan s)
     = ((count_char CHR '';'' s = 0 \<or>
         (count_char CHR '';'' s = 1 \<and> ends_with (trim s) '';'')) \<and>
        filter (\<lambda>w. word_test w s) DISALLOWED = [] \<and>
        count_matches ''/*'' s = count_matches ''*/'' s) \<and>
   (preflightGuard s = Inr () \<and> count_matches ''/*'' s = count_matches ''*/'' s)
     = (fst (syntaxScan s) \<and> count_char CHR '';'' s = 0)"
proof -
  have guard: "(preflightGuard s = Inr ())
     = (count_char CHR '';'' s = 0 \<and> filter (\<lambda>w. word_test w s) DISALLOWED = [])"
    using first_disallowed_None_iff [of DISALLOWED s]
    by (cases "first_disallowed DISALLOWED s") (auto simp: preflightGuard_def)
  have semis: "count_char CHR '';'' (trim s) = count_char CHR '';'' s"
    using semicolon_not_space by (rule count_char_trim)
  have scan: "fst (syntaxScan s)
     = ((count_char CHR '';'' s = 0 \<or>
         (count_char CHR '';'' s = 1 \<and> ends_with (trim s) '';'')) \<and>
        filter (\<lambda>w. word_test w s) DISALLOWED = [] \<and>
        count_matches ''/*'' s = count_matches ''*/'' s)"
    unfolding syntaxScan_def Let_def semis
    by (cases "count_char CHR '';'' s = 0"; cases "count_char CHR '';'' s = 1") auto
  from guard scan show ?thesis
    by auto
qed

theorem C2_preflight_vs_syntaxScan_witness:
  "preflightGuard ''SELECT 1'' = Inr () \<and> fst (syntaxScan ''SELECT 1'') \<and>
   preflightGuard ''SELECT 1; '' = Inl MultiStatement \<and> fst (syntaxScan ''SELECT 1; '') \<and>
   \<not> fst (syntaxScan ''SELECT 1; SELECT 2'') \<and>
   preflightGuard ''select 1 from updates'' = Inr () \<and>
   preflightGuard ''Update t set x = 1'' = Inl (DisallowedToken ''UPDATE'') \<and>
   \<not> fst (syntaxScan ''Update t set x = 1'')"
proof -
  have "count_char CHR '';'' ''SELECT 1'' = 0"
    and "filter (\<lambda>w. word_test w ''SELECT 1'') DISALLOWED = []"
    and "count_matches ''/*'' ''SELECT 1'' = count_matches ''*/'' ''SELECT 1''"
    by code_simp+
  with C2_preflight_vs_syntaxScan [of "''SELECT 1''"]
  have "preflightGuard ''SELECT 1'' = Inr () \<and> fst (syntaxScan ''SELECT 1'')"
    by simp
  moreover have "preflightGuard ''SELECT 1; '' = Inl MultiStatement \<and>
      fst (syntaxScan ''SELECT 1; '') \<and> \<not> fst (syntaxScan ''SELECT 1; SELECT 2'') \<and>
      preflightGuard ''select 1 from updates'' = Inr () \<and>
      preflightGuard ''Update t set x = 1'' = Inl (DisallowedToken ''UPDATE'') \<and>
      \<not> fst (syntaxScan ''Update t set x = 1'')"
    by code_simp
  ultimately show ?thesis by blast
qed

subsection \<open>C4: acceptance threshold of the fuzzy match\<close>

lemma Min_insert_absorb:
  fixes a b :: nat
  assumes "finite S" "a \<le> b"
  shows "Min (insert a (insert b S)) = Min (insert a S)"
proof -
  have "Min (insert a (insert b S)) = Min (insert b (insert a S))"
    by (simp add: insert_commute)
  also have "\<dots> = min b (Min (insert a S))"
    using assms(1) by (intro Min_insert) auto
  also have "\<dots> = Min (insert a S)"
  proof (rule min_absorb2)
    have "Min (insert a S) \<le> a"
      using assms(1) by (intro Min_le) auto
    then show "Min (insert a S) \<le> b"
      using assms(2) by (rule order_trans)
  qed
  finally show ?thesis .
qed

lemma consider_candidate_Some:
  "\<exists>b'. foldl (consider_candidate needle) (Some b) cs = Some b' \<and>
        best_score b' = Min (insert (best_score b) (cand_score needle ` set cs))"
proof (induction cs arbitrary: b)
  case Nil
  then show ?case by simp
next
  case (Cons c cs)
  obtain e f x where c: "c = (e, f, x)" by (cases c) auto
  let ?s = "cand_score needle c"
  show ?case
  proof (cases "?s < best_score b")
    case True
    then have step: "consider_candidate needle (Some b) c
        = Some \<lparr>best_entity = e, best_field = f, best_score = ?s\<rparr>"
      by (simp add: consider_candidate_def cand_score_def c)
    from Cons.IH [of "\<lparr>best_entity = e, best_field = f, best_score = ?s\<rparr>"]
    obtain b' where b': "foldl (consider_candidate needle)
          (Some \<lparr>best_entity = e, best_field = f, best_score = ?s\<rparr>) cs = Some b'"
        "best_score b' = Min (insert ?s (cand_score needle ` set cs))"
      by auto
    have "Min (insert (best_score b) (cand_score needle ` set (c # cs)))
        = Min (insert ?s (cand_score needle ` set cs))"
      using True Min_insert_absorb [of "cand_score needle ` set cs" ?s "best_score b"]
      by (simp add: insert_commute)
    with b' step show ?thesis by simp
  next
    case False
    then have step: "consider_candidate needle (Some b) c = Some b"
      by (simp add: consider_candidate_def cand_score_def c)
    from Cons.IH [of b]
    obtain b' where b': "foldl (consider_candidate needle) (Some b) cs = Some b'"
        "best_score b' = Min (insert (best_score b) (cand_score needle ` set cs))"
      by auto
    have "Min (insert (best_score b) (cand_score needle ` set (c # cs)))
        = Min (insert (best_score b) (cand_score needle ` set cs))"
      using False Min_insert_absorb [of "cand_score needle ` set cs" "best_score b" ?s]
      by simp
    with b' step show ?thesis by simp
  qed
qed

lemma best_of_candidates:
  "cs \<noteq> [] \<Longrightarrow> \<exists>b. foldl (consider_candidate needle) None cs = Some b \<and>
        best_score b = Min (cand_score needle ` set cs)"
proof (cases cs)
  case Nil
  assume "cs \<noteq> []"
  with Nil show ?thesis by simp
next
  case (Cons c cs')
  obtain e f x where c: "c = (e, f, x)" by (cases c) auto
  have step: "consider_candidate needle None c
      = Some \<lparr>best_entity = e, best_field = f, best_score = cand_score needle c\<rparr>"
    by (simp add: consider_candidate_def cand_score_def c)
  from consider_candidate_Some
    [of needle "\<lparr>best_entity = e, best_field = f, best_score = cand_score needle c\<rparr>" cs']
  show ?thesis using Cons step by auto
qed

text \<open>
  C4 (as stated): a match is accepted iff the best distance is at most
  \<open>min(3, ceil(0.3 * len))\<close>. The code accepts when the distance is at most 3 \<^emph>\<open>or\<close> at
  most \<open>ceil(0.3 * len)\<close>: for the identifier \<open>ab\<close> and the only column \<open>xy\<close> the
  distance is 2, above \<open>min(3, 1) = 1\<close>, and the match is accepted.
\<close>

theorem C4_counterexample:
  "bestColumnMatch ''ab'' reg_xy = Some (''e'', ''xy'') \<and>
   levenshtein (normalize_str ''ab'') (normalize_str ''xy'') = 2 \<and>
   min 3 (ceil_30_percent (length (normalize_str ''ab''))) = 1"
  by (simp add: bestColumnMatch_def reg_xy_def candidates_def candidates_of_def
      consider_candidate_def levenshtein_def next_row_def normalize_str_def trim_def
      is_space_def lower_char_def ceil_30_percent_def)

text \<open>
  C4 (amended): a fuzzy match is accepted if and only if there is a candidate and the
  smallest edit distance between the normalized identifier and a normalized candidate
  is at most \<open>max(3, ceil(0.3 * len))\<close>, \<open>len\<close> the length of the normalized
  identifier.
\<close>

theorem C4_bestColumnMatch_accepts:
  "(bestColumnMatch target reg \<noteq> None) =
     (candidates reg \<noteq> [] \<and>
      Min (cand_score (normalize_str target) ` set (candidates reg))
        \<le> max 3 (ceil_30_percent (length (normalize_str target))))"
proof (cases "candidates reg = []")
  case True
  then show ?thesis by (simp add: bestColumnMatch_def)
next
  case False
  from best_of_candidates [OF False, of "normalize_str target"]
  obtain b where "foldl (consider_candidate (normalize_str target)) None (candidates reg) = Some b"
    "best_score b = Min (cand_score (normalize_str target) ` set (candidates reg))"
    by auto
  with False show ?thesis
    by (auto simp: bestColumnMatch_def Let_def)
qed

subsection \<open>C3: the circuit breaker\<close>

lemma run_attempts_success:
  "run_attempts env sql opts ks b lastErr tr = (Inr r, b', tr') \<Longrightarrow>
   consecutiveFailures b' = 0 \<and> trippedUntil b' = 0"
  by (induction ks arbitrary: b lastErr tr)
    (auto simp: Let_def recordSuccess_def split: if_splits sum.splits prod.splits)

lemma recordFailure_count:
  "consecutiveFailures (recordFailure b t) = consecutiveFailures b + 1"
  by (simp add: recordFailure_def Let_def)

lemma run_attempts_counts:
  "run_attempts env sql opts ks b lastErr tr = (Inl e, b', tr') \<Longrightarrow>
   consecutiveFailures b' + length (filter is_acquired tr)
     = consecutiveFailures b + length (filter is_acquired tr')"
proof (induction ks arbitrary: b lastErr tr)
  case Nil
  then show ?case by simp
next
  case (Cons k ks)
  show ?case
  proof (cases "acquire_ok (env k)")
    case False
    with Cons.prems show ?thesis by simp
  next
    case True
    obtain r evs where att: "try_attempt (env k) sql opts b = (r, evs)"
      by (cases "try_attempt (env k) sql opts b")
    have evs: "filter is_acquired evs = []"
      using att by (auto simp: try_attempt_def Let_def split: sum.splits if_splits prod.splits)
    show ?thesis
    proof (cases r)
      case (Inr res)
      with Cons.prems True att show ?thesis by (simp add: Let_def)
    next
      case (Inl err)
      with Cons.prems True att
      have "run_attempts env sql opts ks (recordFailure b (failed_at (env k))) (Some err)
              ((tr @ [Acquired (started_at (env k)) (isOpen b (started_at (env k)))]) @ evs)
            = (Inl e, b', tr')"
        by (simp add: Let_def)
      from Cons.IH [OF this] evs show ?thesis
        by (simp add: recordFailure_count)
    qed
  qed
qed

lemma run_attempts_all_fail:
  assumes "run_attempts env sql opts ks b lastErr tr = (Inl e, b', tr')"
    and "\<forall>k. acquire_ok (env k)"
  shows "consecutiveFailures b' = consecutiveFailures b + length ks \<and>
         (ks \<noteq> [] \<and> 3 \<le> consecutiveFailures b' \<longrightarrow>
            trippedUntil b' = failed_at (env (last ks)) + 60000)"
  using assms
proof (induction ks arbitrary: b lastErr tr)
  case Nil
  then show ?case by simp
next
  case (Cons k ks)
  obtain r evs where att: "try_attempt (env k) sql opts b = (r, evs)"
    by (cases "try_attempt (env k) sql opts b")
  from Cons.prems have acq: "acquire_ok (env k)"
    by blast
  show ?case
  proof (cases r)
    case (Inr res)
    with Cons.prems acq att show ?thesis by (simp add: Let_def)
  next
    case (Inl err)
    let ?b1 = "recordFailure b (failed_at (env k))"
    from Inl Cons.prems acq att
    have run: "run_attempts env sql opts ks ?b1 (Some err)
              ((tr @ [Acquired (started_at (env k)) (isOpen b (started_at (env k)))]) @ evs)
            = (Inl e, b', tr')"
      by (simp add: Let_def)
    from Cons.IH [OF run Cons.prems(2)]
    have ih: "consecutiveFailures b' = consecutiveFailures ?b1 + length ks"
      and ih2: "ks \<noteq> [] \<and> 3 \<le> consecutiveFailures b' \<longrightarrow>
            trippedUntil b' = failed_at (env (last ks)) + 60000"
      by blast+
    have c1: "consecutiveFailures ?b1 = consecutiveFailures b + 1"
      by (rule recordFailure_count)
    show ?thesis
    proof (cases ks)
      case Nil
      with run have "b' = ?b1" by simp
      with Nil c1 show ?thesis
        by (simp add: recordFailure_def Let_def)
    next
      case (Cons k' ks')
      with ih ih2 c1 show ?thesis by simp
    qed
  qed
qed

text \<open>
  C3 (as stated): while the breaker is open no statement runs against the warehouse.
  The breaker is read once, on entry of \<open>execWithRetry\<close>; the retries of a request that
  was admitted are not checked again. With five attempts against a failing warehouse
  the third failure opens the breaker, and the fourth and fifth attempts still acquire
  a connection and run the statement while it is open.
\<close>

theorem C3_counterexample:
  "execWithRetry always_failing closed_breaker 0 ''SELECT 1'' five_attempts =
     (Inl (DriverError ''warehouse unavailable''),
      \<lparr>consecutiveFailures = 5, trippedUntil = 65100\<rparr>,
      [Acquired 1000 False, Executed 1000 ''SELECT 1'' False,
       Acquired 2000 False, Executed 2000 ''SELECT 1'' False,
       Acquired 3000 False, Executed 3000 ''SELECT 1'' False,
       Acquired 4000 True, Executed 4000 ''SELECT 1'' True,
       Acquired 5000 True, Executed 5000 ''SELECT 1'' True])"
  by code_simp

text \<open>
  C3 (amended): the breaker counts consecutive failures: every attempt of a request that
  gets a connection and fails adds one to the counter, so a request whose attempts all
  fail adds the number of its attempts; a failure that brings the count to 3 or more
  opens the breaker until 60 seconds after that failure; a request that arrives while
  the breaker is open is rejected with the breaker unchanged, no connection acquired
  and no statement sent; and a request that succeeds leaves the counter at zero and the
  breaker closed. (The breaker is read on entry only: the attempts of a request
  admitted while it was closed are not checked again.)
\<close>

theorem C3_circuit_breaker:
  "consecutiveFailures (recordFailure b t) = consecutiveFailures b + 1 \<and>
   (consecutiveFailures (recordFailure b t) \<ge> 3 \<longrightarrow>
      (\<forall>t'. isOpen (recordFailure b t) t' = (t' < t + 60000))) \<and>
   (isOpen s now \<longrightarrow> execWithRetry env s now sql opts = (Inl BreakerOpen, s, [])) \<and>
   (\<forall>r b' tr. execWithRetry env s now sql opts = (Inr r, b', tr) \<longrightarrow>
      consecutiveFailures b' = 0 \<and> trippedUntil b' = 0) \<and>
   (\<forall>e b' tr. execWithRetry env s now sql opts = (Inl e, b', tr) \<longrightarrow>
      consecutiveFailures b' = consecutiveFailures s + length (filter is_acquired tr)) \<and>
   (\<forall>e b' tr. execWithRetry env s now sql opts = (Inl e, b', tr) \<and> \<not> isOpen s now \<and>
        (\<forall>k. acquire_ok (env k)) \<longrightarrow>
      consecutiveFailures b' = consecutiveFailures s + attempts_of opts \<and>
      (3 \<le> consecutiveFailures b' \<longrightarrow>
         (\<forall>t'. isOpen b' t' = (t' < failed_at (env (attempts_of opts)) + 60000))))"
proof (intro conjI allI impI)
  show "consecutiveFailures (recordFailure b t) = consecutiveFailures b + 1"
    by (simp add: recordFailure_def Let_def)
next
  fix t'
  assume "3 \<le> consecutiveFailures (recordFailure b t)"
  then show "isOpen (recordFailure b t) t' = (t' < t + 60000)"
    by (simp add: recordFailure_def isOpen_def Let_def split: if_splits)
next
  assume "isOpen s now"
  then show "execWithRetry env s now sql opts = (Inl BreakerOpen, s, [])"
    by (simp add: execWithRetry_def)
next
  fix r b' tr
  assume run: "execWithRetry env s now sql opts = (Inr r, b', tr)"
  then have "\<not> isOpen s now"
    by (auto simp: execWithRetry_def)
  with run show "consecutiveFailures b' = 0" "trippedUntil b' = 0"
    using run_attempts_success by (fastforce simp: execWithRetry_def Let_def)+
next
  fix e b' tr
  assume run: "execWithRetry env s now sql opts = (Inl e, b', tr)"
  show "consecutiveFailures b' = consecutiveFailures s + length (filter is_acquired tr)"
  proof (cases "isOpen s now")
    case True
    with run show ?thesis by (simp add: execWithRetry_def)
  next
    case False
    with run have "run_attempts env sql opts [1 ..< Suc (attempts_of opts)] s None []
        = (Inl e, b', tr)"
      by (simp add: execWithRetry_def del: upt_Suc)
    from run_attempts_counts [OF this] show ?thesis by simp
  qed
next
  fix e b' tr
  assume a: "execWithRetry env s now sql opts = (Inl e, b', tr) \<and> \<not> isOpen s now \<and>
        (\<forall>k. acquire_ok (env k))"
  then have run0: "execWithRetry env s now sql opts = (Inl e, b', tr)"
    and nopen: "\<not> isOpen s now"
    by blast+
  then have run: "run_attempts env sql opts [1 ..< Suc (attempts_of opts)] s None []
        = (Inl e, b', tr)"
    by (simp add: execWithRetry_def del: upt_Suc)
  have pos: "1 \<le> attempts_of opts"
    by (simp add: attempts_of_def)
  then have ne: "[1 ..< Suc (attempts_of opts)] \<noteq> []"
    and lst: "last [1 ..< Suc (attempts_of opts)] = attempts_of opts"
    by simp_all
  from a have acq: "\<forall>k. acquire_ok (env k)"
    by blast
  from run_attempts_all_fail [OF run acq] ne lst
  have n: "consecutiveFailures b' = consecutiveFailures s + attempts_of opts"
    and tu: "3 \<le> consecutiveFailures b' \<longrightarrow>
      trippedUntil b' = failed_at (env (attempts_of opts)) + 60000"
    by simp_all
  from n show "consecutiveFailures b' = consecutiveFailures s + attempts_of opts" .
  fix t'
  assume "3 \<le> consecutiveFailures b'"
  with tu show "isOpen b' t' = (t' < failed_at (env (attempts_of opts)) + 60000)"
    by (simp add: isOpen_def)
qed

theorem C3_circuit_breaker_witness:
  "execWithRetry always_failing closed_breaker 0 ''SELECT 1'' default_options
     = (Inl (DriverError ''warehouse unavailable''),
        \<lparr>consecutiveFailures = 3, trippedUntil = 63100\<rparr>,
        [Acquired 1000 False, Executed 1000 ''SELECT 1'' False,
         Acquired 2000 False, Executed 2000 ''SELECT 1'' False,
         Acquired 3000 False, Executed 3000 ''SELECT 1'' False]) \<and>
   isOpen \<lparr>consecutiveFailures = 3, trippedUntil = 63100\<rparr> 5000 \<and>
   execWithRetry (answering_from 5000) \<lparr>consecutiveFailures = 3, trippedUntil = 63100\<rparr> 5000 ''SELECT 1''
       default_options
     = (Inl BreakerOpen, \<lparr>consecutiveFailures = 3, trippedUntil = 63100\<rparr>, []) \<and>
   \<not> isOpen \<lparr>consecutiveFailures = 3, trippedUntil = 63100\<rparr> 70000 \<and>
   consecutiveFailures
     (fst (snd (execWithRetry (answering_from 70000)
        \<lparr>consecutiveFailures = 3, trippedUntil = 63100\<rparr> 70000
        ''SELECT 1'' default_options))) = 0"
proof -
  let ?b = "\<lparr>consecutiveFailures = 3, trippedUntil = 63100\<rparr>"
  let ?tr = "[Acquired 1000 False, Executed 1000 ''SELECT 1'' False,
         Acquired 2000 False, Executed 2000 ''SELECT 1'' False,
         Acquired 3000 False, Executed 3000 ''SELECT 1'' False]"
  have failed: "execWithRetry always_failing closed_breaker 0 ''SELECT 1'' default_options
     = (Inl (DriverError ''warehouse unavailable''), ?b, ?tr)"
    by code_simp
  have closed: "\<not> isOpen closed_breaker 0"
    by code_simp
  have acq: "\<forall>k. acquire_ok (always_failing k)"
    by (simp add: always_failing_def)
  have three: "3 \<le> consecutiveFailures ?b"
    by simp
  have at3: "failed_at (always_failing (attempts_of default_options)) + 60000 = 63100"
    by code_simp
  note inst1 = C3_circuit_breaker [where s = closed_breaker and now = 0
      and env = always_failing and sql = "''SELECT 1''" and opts = default_options
      and b = closed_breaker and t = 0]
  from inst1 failed closed acq three
  have "\<forall>t'. isOpen ?b t' = (t' < failed_at (always_failing (attempts_of default_options)) + 60000)"
    by blast
  with at3 have op: "isOpen ?b 5000" and cl: "\<not> isOpen ?b 70000"
    by simp_all
  note inst2 = C3_circuit_breaker [where s = ?b and now = 5000
      and env = "answering_from 5000" and sql = "''SELECT 1''" and opts = default_options
      and b = closed_breaker and t = 0]
  from inst2 op
  have rejected: "execWithRetry (answering_from 5000) ?b 5000 ''SELECT 1'' default_options
      = (Inl BreakerOpen, ?b, [])"
    by blast
  have ok: "execWithRetry (answering_from 70000) ?b 70000 ''SELECT 1'' default_options
      = (Inr \<lparr>res_rows = [()], res_columns = [(''N'', ''FIXED'')], res_lastQueryId = ''q1'',
              res_truncated = False\<rparr>,
         fst (snd (execWithRetry (answering_from 70000) ?b 70000 ''SELECT 1'' default_options)),
         [Acquired 71000 False, Executed 71000 ''SELECT 1'' False])"
    by code_simp
  note inst3 = C3_circuit_breaker [where s = ?b and now = 70000
      and env = "answering_from 70000" and sql = "''SELECT 1''" and opts = default_options
      and b = closed_breaker and t = 0]
  from inst3 ok
  have reset: "consecutiveFailures
     (fst (snd (execWithRetry (answering_from 70000) ?b 70000 ''SELECT 1'' default_options))) = 0"
    by blast
  from failed op rejected cl reset show ?thesis
    by (intro conjI)
qed

subsection \<open>C8: loading an entity\<close>

lemma dom_indexByName_aux:
  "dom (fold (\<lambda>x m. m(nm x \<mapsto> x)) arr m0) = dom m0 \<union> nm ` set arr"
  by (induction arr arbitrary: m0) auto

lemma dom_indexByName: "dom (indexByName nm arr) = nm ` set arr"
  by (simp add: indexByName_def dom_indexByName_aux)

lemma validateJoins_ok:
  "validateJoins ename js dimIdx = Inr () \<Longrightarrow> \<forall>j \<in> set js. join_from j \<in> dom dimIdx"
  by (induction js) (auto split: if_splits)

lemma validateMetricSources_ok:
  "validateMetricSources ename mets measIdx tnames = Inr () \<Longrightarrow>
   \<forall>m \<in> set mets. met_type m = Atomic \<longrightarrow>
     (case met_source m of
        None \<Rightarrow> False
      | Some src \<Rightarrow> src_measure src \<in> dom measIdx \<and> src_anchor_date src \<in> tnames)"
  by (induction mets) (auto split: if_splits option.splits sum.splits)

lemma valid_after_checks:
  assumes "validateJoins ename (joins e) (indexByName dim_name (dimensions e)) = Inr ()"
    and "validateMetricSources ename (metrics e) (indexByName meas_name (ent_measures e))
           (set (map td_name (time_dimensions e))) = Inr ()"
  shows "fully_validated e"
proof -
  have j: "\<forall>j \<in> set (joins e). join_from j \<in> set (map dim_name (dimensions e))"
    using validateJoins_ok [OF assms(1)] by (simp add: dom_indexByName)
  have m: "\<forall>m \<in> set (metrics e). met_type m = Atomic \<longrightarrow>
     (case met_source m of
        None \<Rightarrow> False
      | Some src \<Rightarrow> src_measure src \<in> set (map meas_name (ent_measures e)) \<and>
          src_anchor_date src \<in> set (map td_name (time_dimensions e)))"
    using validateMetricSources_ok [OF assms(2)]
    by (auto simp: dom_indexByName split: option.splits)
  from j m show ?thesis unfolding fully_validated_def by blast
qed

lemma cache_valid_update:
  "cache_valid cache \<Longrightarrow> fully_validated e \<Longrightarrow> cache_valid (cache(name \<mapsto> (y, e)))"
  by (auto simp: cache_valid_def)

text \<open>
  C8: \<open>loadEntityYaml\<close> either returns an entity in which every join's local field is a
  declared dimension and every atomic metric has a source whose measure exists on the
  entity and whose anchor date is one of its time dimensions, or it fails; on every
  failure the entity cache is unchanged, and on success the cache holds the returned
  entity under the name. Entities enter the cache only here, so a cache of validated
  entities stays one.
\<close>

theorem C8_loadEntityYaml:
  assumes "cache_valid cache"
  shows "case loadEntityYaml env name cache of
           (Inr (n, y, e), cache') \<Rightarrow>
             fully_validated e \<and> cache' = cache(name \<mapsto> (y, e)) \<and> cache_valid cache'
         | (Inl err, cache') \<Rightarrow> cache' = cache"
proof (cases "cache name")
  case (Some p)
  obtain y e where p: "p = (y, e)" by (cases p)
  from Some p assms have "fully_validated e"
    by (auto simp: cache_valid_def)
  moreover from Some p have "cache(name \<mapsto> (y, e)) = cache"
    by (simp add: fun_upd_idem)
  ultimately show ?thesis
    using Some p assms by (simp add: loadEntityYaml_def)
next
  case None
  show ?thesis
    using None assms
    by (auto simp: loadEntityYaml_def Let_def
        intro!: valid_after_checks cache_valid_update
        split: option.splits sum.splits)
qed

theorem C8_loadEntityYaml_witness:
  "cache_valid Map.empty \<and>
   (\<exists>y e c. loadEntityYaml demo_store ''accounts'' Map.empty = (Inr (''accounts'', y, e), c) \<and>
      fully_validated e \<and> c = [''accounts'' \<mapsto> (y, e)]) \<and>
   loadEntityYaml demo_store ''orphans'' Map.empty
     = (Inl (JoinInvalid ''orphans'' ''company_id''), Map.empty)"
proof -
  have v: "cache_valid Map.empty"
    by (simp add: cache_valid_def)
  have ok: "\<exists>y e c. loadEntityYaml demo_store ''accounts'' Map.empty
      = (Inr (''accounts'', y, e), c)"
    by (simp add: loadEntityYaml_def demo_store_def accounts_raw_def indexByName_def Let_def)
  have bad: "fst (loadEntityYaml demo_store ''orphans'' Map.empty)
      = Inl (JoinInvalid ''orphans'' ''company_id'')"
    by (simp add: loadEntityYaml_def demo_store_def accounts_raw_def orphans_raw_def
        indexByName_def Let_def)
  from ok obtain y e c where
    run: "loadEntityYaml demo_store ''accounts'' Map.empty = (Inr (''accounts'', y, e), c)"
    by blast
  from C8_loadEntityYaml [OF v, where env = demo_store and name = "''accounts''"] run
  have "fully_validated e \<and> c = [''accounts'' \<mapsto> (y, e)]"
    by simp
  with run have first: "\<exists>y e c. loadEntityYaml demo_store ''accounts'' Map.empty
      = (Inr (''accounts'', y, e), c) \<and> fully_validated e \<and> c = [''accounts'' \<mapsto> (y, e)]"
    by blast
  from C8_loadEntityYaml [OF v, where env = demo_store and name = "''orphans''"] bad
  have "loadEntityYaml demo_store ''orphans'' Map.empty
      = (Inl (JoinInvalid ''orphans'' ''company_id''), Map.empty)"
    by (cases "loadEntityYaml demo_store ''orphans'' Map.empty") auto
  with v first show ?thesis by blast
qed

subsection \<open>C5: what a cache hit returns\<close>

lemma map_of_cache_set: "map_of (cache_set k v c) k = Some v"
proof (cases "k \<in> set (map fst c)")
  case True
  have "k \<in> set (map fst xs) \<Longrightarrow>
      map_of (map (\<lambda>kv. if fst kv = k then (k, v) else kv) xs) k = Some v" for xs
    by (induction xs) auto
  with True show ?thesis by (simp add: cache_set_def)
next
  case False
  then have "map_of c k = None"
    by (simp add: map_of_eq_None_iff)
  with False show ?thesis by (simp add: cache_set_def map_add_def)
qed

lemma fold_cache_delete:
  "fold (\<lambda>kv acc. cache_delete (fst kv) acc) xs c = filter (\<lambda>kv. fst kv \<notin> fst ` set xs) c"
  by (induction xs arbitrary: c) (auto simp: cache_delete_def intro: filter_cong)

lemma map_of_filter_distinct:
  assumes "distinct (map fst c)" "map_of (filter P c) k = Some e"
  shows "map_of c k = Some e"
proof -
  from assms(2) have "(k, e) \<in> set (filter P c)"
    by (rule map_of_SomeD)
  then have "(k, e) \<in> set c" by simp
  with assms(1) show ?thesis by simp
qed

lemma cleanExpiredCache_keeps:
  assumes "distinct (map fst c)" "map_of (cleanExpiredCache now c) k = Some e"
  shows "map_of c k = Some e"
proof -
  let ?c1 = "filter (\<lambda>kv. \<not> (now - cachedAt (snd kv) > CACHE_MAX_AGE_MS)) c"
  have d1: "distinct (map fst ?c1)"
    using assms(1) by (rule distinct_map_filter)
  have "map_of ?c1 k = Some e"
  proof (cases "length ?c1 > CACHE_MAX_SIZE")
    case True
    with assms(2) show ?thesis
      using map_of_filter_distinct [OF d1]
      by (simp add: cleanExpiredCache_def Let_def fold_cache_delete)
  next
    case False
    with assms(2) show ?thesis
      by (simp add: cleanExpiredCache_def Let_def)
  qed
  with assms(1) show ?thesis by (rule map_of_filter_distinct)
qed

lemma miss_populates:
  assumes "ExecuteSQLWithRepair env ck sql c0 = (Inr out1, c1)"
    and "o_fromCache out1 = None" and "o_ok out1 = None"
  shows "\<exists>e. map_of c1 sql = Some e \<and> o_rows out1 = Some (ce_rows e) \<and>
           o_columns out1 = Some (ce_columns e) \<and>
           o_lastQueryId out1 = Some (ce_lastQueryId e) \<and> cachedAt e = t_store ck"
  using assms
  by (auto simp: ExecuteSQLWithRepair_def first_repair_def second_repair_def Let_def
      hit_output_def success_output_def failure_output_def store_result_def map_of_cache_set
      split: option.splits sum.splits if_splits prod.splits)

lemma hit_reads_entry:
  assumes "ExecuteSQLWithRepair env ck sql c = (Inr out, c')"
    and "o_fromCache out = Some True"
  shows "\<exists>e. map_of (cleanExpiredCache (t_clean ck) c) sql = Some e \<and> out = hit_output sql e \<and>
           t_lookup ck - cachedAt e < CACHE_MAX_AGE_MS"
  using assms
  by (auto simp: ExecuteSQLWithRepair_def first_repair_def second_repair_def Let_def
      success_output_def failure_output_def
      split: option.splits sum.splits if_splits prod.splits)

lemma cleanExpiredCache_within_capacity:
  "length c \<le> CACHE_MAX_SIZE \<Longrightarrow>
   cleanExpiredCache now c = filter (\<lambda>kv. \<not> (now - cachedAt (snd kv) > CACHE_MAX_AGE_MS)) c"
proof -
  assume "length c \<le> CACHE_MAX_SIZE"
  moreover have "length (filter (\<lambda>kv. \<not> (now - cachedAt (snd kv) > CACHE_MAX_AGE_MS)) c)
      \<le> length c"
    by (rule length_filter_le)
  ultimately have "\<not> length (filter (\<lambda>kv. \<not> (now - cachedAt (snd kv) > CACHE_MAX_AGE_MS)) c)
      > CACHE_MAX_SIZE"
    by linarith
  then show ?thesis
    unfolding cleanExpiredCache_def Let_def by (rule if_not_P)
qed

lemma map_of_filter_keeps:
  assumes "distinct (map fst c)" "map_of c k = Some e" "P (k, e)"
  shows "map_of (filter P c) k = Some e"
proof -
  from assms(2) have "(k, e) \<in> set c"
    by (rule map_of_SomeD)
  with assms(3) have "(k, e) \<in> set (filter P c)"
    by simp
  moreover from assms(1) have "distinct (map fst (filter P c))"
    by (rule distinct_map_filter)
  ultimately show ?thesis
    by (simp add: map_of_eq_Some_iff)
qed

lemma fresh_entry_hits:
  assumes "map_of (cleanExpiredCache (t_clean ck) c) sql = Some e"
    and "t_lookup ck - cachedAt e < CACHE_MAX_AGE_MS"
  shows "ExecuteSQLWithRepair env ck sql c
           = (Inr (hit_output sql e), cleanExpiredCache (t_clean ck) c)"
  using assms by (simp add: ExecuteSQLWithRepair_def Let_def)

text \<open>
  C5 (as stated): the hit returns an object structurally equal to the object the
  populating execution returned. The two objects differ in their keys: the execution
  returns \<open>truncated\<close> and no \<open>fromCache\<close>, the hit returns \<open>fromCache: true\<close> and no
  \<open>truncated\<close>.
\<close>

theorem C5_counterexample:
  "ExecuteSQLWithRepair healthy first_call ''SELECT 1'' [] =
     (Inr \<lparr>o_rows = Some [42], o_columns = Some [(''N'', ''FIXED'')],
           o_lastQueryId = Some ''q1'', o_truncated = Some False,
           o_attemptedSql = ''SELECT 1'', o_repaired = False, o_repairReason = Some None,
           o_fromCache = None, o_ok = None, o_error = None\<rparr>,
      [(''SELECT 1'', \<lparr>ce_rows = [42], ce_columns = [(''N'', ''FIXED'')],
                       ce_lastQueryId = ''q1'', cachedAt = 250\<rparr>)]) \<and>
   ExecuteSQLWithRepair unreachable one_minute_later ''SELECT 1''
       [(''SELECT 1'', \<lparr>ce_rows = [42], ce_columns = [(''N'', ''FIXED'')],
                        ce_lastQueryId = ''q1'', cachedAt = 250\<rparr>)] =
     (Inr \<lparr>o_rows = Some [42], o_columns = Some [(''N'', ''FIXED'')],
           o_lastQueryId = Some ''q1'', o_truncated = None,
           o_attemptedSql = ''SELECT 1'', o_repaired = False, o_repairReason = Some None,
           o_fromCache = Some True, o_ok = None, o_error = None\<rparr>,
      [(''SELECT 1'', \<lparr>ce_rows = [42], ce_columns = [(''N'', ''FIXED'')],
                       ce_lastQueryId = ''q1'', cachedAt = 250\<rparr>)]) \<and>
   fst (ExecuteSQLWithRepair unreachable one_minute_later ''SELECT 1''
          (snd (ExecuteSQLWithRepair healthy first_call ''SELECT 1'' [])))
     \<noteq> fst (ExecuteSQLWithRepair healthy first_call ''SELECT 1'' [])"
  by code_simp

text \<open>
  C5 (amended): let an execution of a SQL string miss the cache and succeed, and let the
  same string be executed again while the entry stored by the first execution is still
  the entry of that key. If the cache holds at most 100 entries and the second
  execution looks the entry up less than 5 minutes after it was stored, then the second
  execution is a cache hit, whatever the warehouse would answer: it returns the same
  \<open>rows\<close>, \<open>columns\<close> and \<open>lastQueryId\<close> as the first execution returned, with
  \<open>attemptedSql\<close> the SQL string, \<open>repaired: false\<close>, \<open>repairReason: null\<close>,
  \<open>fromCache: true\<close> and no \<open>truncated\<close>. And whenever the second execution is a
  cache hit, it was looked up less than 5 minutes after the entry was stored and
  returns these values.
\<close>

theorem C5_cache_hit:
  assumes first: "ExecuteSQLWithRepair env1 ck1 sql c0 = (Inr out1, c1)"
    and miss: "o_fromCache out1 = None"
    and succeeded: "o_ok out1 = None"
    and keys: "distinct (map fst c')"
    and kept: "map_of c' sql = map_of c1 sql"
  shows "(length c' \<le> CACHE_MAX_SIZE \<and> t_clean ck' \<le> t_lookup ck' \<and>
          t_lookup ck' - t_store ck1 < CACHE_MAX_AGE_MS \<longrightarrow>
            ExecuteSQLWithRepair env' ck' sql c'
              = (Inr \<lparr>o_rows = o_rows out1, o_columns = o_columns out1,
                      o_lastQueryId = o_lastQueryId out1, o_truncated = None,
                      o_attemptedSql = sql, o_repaired = False, o_repairReason = Some None,
                      o_fromCache = Some True, o_ok = None, o_error = None\<rparr>,
                 cleanExpiredCache (t_clean ck') c')) \<and>
         (\<forall>out' c''. ExecuteSQLWithRepair env' ck' sql c' = (Inr out', c'') \<and>
             o_fromCache out' = Some True \<longrightarrow>
               o_rows out' = o_rows out1 \<and> o_columns out' = o_columns out1 \<and>
               o_lastQueryId out' = o_lastQueryId out1 \<and>
               o_attemptedSql out' = sql \<and> o_repaired out' = False \<and>
               o_repairReason out' = Some None \<and> o_truncated out' = None \<and>
               t_lookup ck' - t_store ck1 < CACHE_MAX_AGE_MS)"
proof (intro conjI allI impI)
  from miss_populates [OF first miss succeeded]
  obtain e where e: "map_of c1 sql = Some e" "o_rows out1 = Some (ce_rows e)"
      "o_columns out1 = Some (ce_columns e)" "o_lastQueryId out1 = Some (ce_lastQueryId e)"
      "cachedAt e = t_store ck1"
    by blast
  {
    assume a: "length c' \<le> CACHE_MAX_SIZE \<and> t_clean ck' \<le> t_lookup ck' \<and>
          t_lookup ck' - t_store ck1 < CACHE_MAX_AGE_MS"
    then have cap: "length c' \<le> CACHE_MAX_SIZE"
      and age: "t_lookup ck' - cachedAt e < CACHE_MAX_AGE_MS"
      and fresh: "\<not> (t_clean ck' - cachedAt (snd (sql, e)) > CACHE_MAX_AGE_MS)"
      using e(5) by auto
    from kept e(1) have "map_of c' sql = Some e"
      by simp
    from map_of_filter_keeps
      [where P = "\<lambda>kv. \<not> (t_clean ck' - cachedAt (snd kv) > CACHE_MAX_AGE_MS)",
        OF keys this fresh]
    have "map_of (cleanExpiredCache (t_clean ck') c') sql = Some e"
      by (simp add: cleanExpiredCache_within_capacity [OF cap])
    from fresh_entry_hits [OF this age]
    show "ExecuteSQLWithRepair env' ck' sql c'
              = (Inr \<lparr>o_rows = o_rows out1, o_columns = o_columns out1,
                      o_lastQueryId = o_lastQueryId out1, o_truncated = None,
                      o_attemptedSql = sql, o_repaired = False, o_repairReason = Some None,
                      o_fromCache = Some True, o_ok = None, o_error = None\<rparr>,
                 cleanExpiredCache (t_clean ck') c')"
      by (simp add: hit_output_def e)
  }
  fix out' c''
  assume h: "ExecuteSQLWithRepair env' ck' sql c' = (Inr out', c'') \<and>
             o_fromCache out' = Some True"
  then have second: "ExecuteSQLWithRepair env' ck' sql c' = (Inr out', c'')"
    and hit: "o_fromCache out' = Some True"
    by blast+
  from hit_reads_entry [OF second hit]
  obtain e' where e': "map_of (cleanExpiredCache (t_clean ck') c') sql = Some e'"
      "out' = hit_output sql e'" "t_lookup ck' - cachedAt e' < CACHE_MAX_AGE_MS"
    by blast
  from cleanExpiredCache_keeps [OF keys e'(1)] kept e(1) have same: "e' = e"
    by simp
  from same e e' show "o_rows out' = o_rows out1" "o_columns out' = o_columns out1"
    "o_lastQueryId out' = o_lastQueryId out1" "o_attemptedSql out' = sql"
    "o_repaired out' = False" "o_repairReason out' = Some None" "o_truncated out' = None"
    "t_lookup ck' - t_store ck1 < CACHE_MAX_AGE_MS"
    by (simp_all add: hit_output_def)
qed

theorem C5_cache_hit_witness:
  "ExecuteSQLWithRepair healthy first_call ''SELECT 1'' [] =
     (Inr (success_output one_row ''SELECT 1'' False None),
      [(''SELECT 1'', \<lparr>ce_rows = [42::nat], ce_columns = [(''N'', ''FIXED'')],
                       ce_lastQueryId = ''q1'', cachedAt = 250\<rparr>)]) \<and>
   ExecuteSQLWithRepair unreachable one_minute_later ''SELECT 1''
       [(''SELECT 1'', \<lparr>ce_rows = [42::nat], ce_columns = [(''N'', ''FIXED'')],
                        ce_lastQueryId = ''q1'', cachedAt = 250\<rparr>)] =
     (Inr \<lparr>o_rows = Some [42], o_columns = Some [(''N'', ''FIXED'')],
           o_lastQueryId = Some ''q1'', o_truncated = None,
           o_attemptedSql = ''SELECT 1'', o_repaired = False, o_repairReason = Some None,
           o_fromCache = Some True, o_ok = None, o_error = None\<rparr>,
      [(''SELECT 1'', \<lparr>ce_rows = [42::nat], ce_columns = [(''N'', ''FIXED'')],
                       ce_lastQueryId = ''q1'', cachedAt = 250\<rparr>)])"
proof -
  let ?e = "\<lparr>ce_rows = [42::nat], ce_columns = [(''N'', ''FIXED'')],
             ce_lastQueryId = ''q1'', cachedAt = 250\<rparr>"
  let ?c = "[(''SELECT 1'', ?e)]"
  let ?o1 = "success_output one_row ''SELECT 1'' False None"
  have r1: "ExecuteSQLWithRepair healthy first_call ''SELECT 1'' [] = (Inr ?o1, ?c)"
    by code_simp
  have m: "o_fromCache ?o1 = None" and s: "o_ok ?o1 = None"
    by (simp_all add: success_output_def)
  have d: "distinct (map fst ?c)"
    by simp
  have cap: "length ?c \<le> CACHE_MAX_SIZE"
    by (simp add: CACHE_MAX_SIZE_def)
  have clk: "t_clean one_minute_later \<le> t_lookup one_minute_later"
    and age: "t_lookup one_minute_later - t_store first_call < CACHE_MAX_AGE_MS"
    by (simp_all add: one_minute_later_def first_call_def CACHE_MAX_AGE_MS_def)
  have cl: "cleanExpiredCache (t_clean one_minute_later) ?c = ?c"
    by code_simp
  from C5_cache_hit [where env' = unreachable and ck' = one_minute_later, OF r1 m s d refl]
    cap clk age
  have "ExecuteSQLWithRepair unreachable one_minute_later ''SELECT 1'' ?c
      = (Inr \<lparr>o_rows = o_rows ?o1, o_columns = o_columns ?o1,
              o_lastQueryId = o_lastQueryId ?o1, o_truncated = None,
              o_attemptedSql = ''SELECT 1'', o_repaired = False, o_repairReason = Some None,
              o_fromCache = Some True, o_ok = None, o_error = None\<rparr>,
         cleanExpiredCache (t_clean one_minute_later) ?c)"
    by blast
  then have "ExecuteSQLWithRepair unreachable one_minute_later ''SELECT 1'' ?c
      = (Inr \<lparr>o_rows = Some [42], o_columns = Some [(''N'', ''FIXED'')],
           o_lastQueryId = Some ''q1'', o_truncated = None,
           o_attemptedSql = ''SELECT 1'', o_repaired = False, o_repairReason = Some None,
           o_fromCache = Some True, o_ok = None, o_error = None\<rparr>, ?c)"
    by (simp add: cl success_output_def one_row_def)
  with r1 show ?thesis
    by (intro conjI)
qed

subsection \<open>C1: cyclic dimension definitions\<close>

lemma cyclic_entity:
  "map_of (registry cyclic_ctx) (currentEntity cyclic_ctx) = Some (entity_of_raw cyclic_raw)"
  by (simp add: cyclic_ctx_def)

lemma cyclic_resolve:
  "map_option dim_sql (resolveCanonicalField (entity_of_raw cyclic_raw) ''a'') = Some ''{b}''"
  "map_option dim_sql (resolveCanonicalField (entity_of_raw cyclic_raw) ''b'') = Some ''{a}''"
  by (simp_all add: resolveCanonicalField_def entity_of_raw_def cyclic_raw_def indexByName_def)

lemma cyclic_matches:
  "match_CUBE_RE ''{a}'' = None" "match_SAME_ENTITY_FIELD_RE ''{a}'' = Some ''a''"
  "match_CUBE_RE ''{b}'' = None" "match_SAME_ENTITY_FIELD_RE ''{b}'' = Some ''b''"
  by (simp_all add: match_CUBE_RE_def match_SAME_ENTITY_FIELD_RE_def is_word_char_def)

lemma cyclic_step:
  "expand_field recur cyclic_ctx stack ''a'' = recur ''{b}'' cyclic_ctx (stack @ [''e.a''])"
  "expand_field recur cyclic_ctx stack ''b'' = recur ''{a}'' cyclic_ctx (stack @ [''e.b''])"
  using cyclic_resolve
  by (auto simp: expand_field_def cyclic_entity cyclic_matches entity_of_raw_def
      cyclic_raw_def split: option.splits)

lemma cyclic_never_returns:
  "set stack \<subseteq> {''e.a'', ''e.b''} \<Longrightarrow>
   expandSqlExpression n ''{a}'' cyclic_ctx stack = None \<and>
   expandSqlExpression n ''{b}'' cyclic_ctx stack = None"
proof (induction n arbitrary: stack)
  case 0
  show ?case by simp
next
  case (Suc n)
  from Suc.prems have fresh: "''{a}'' \<notin> set stack" "''{b}'' \<notin> set stack"
    by auto
  from Suc.prems have "set (stack @ [''e.a'']) \<subseteq> {''e.a'', ''e.b''}"
    and "set (stack @ [''e.b'']) \<subseteq> {''e.a'', ''e.b''}"
    by auto
  with Suc.IH have "expandSqlExpression n ''{b}'' cyclic_ctx (stack @ [''e.a'']) = None"
    and "expandSqlExpression n ''{a}'' cyclic_ctx (stack @ [''e.b'']) = None"
    by blast+
  with fresh show ?case
    by (simp add: cyclic_matches cyclic_step)
qed

text \<open>
  C1: with two dimensions \<open>a\<close> and \<open>b\<close> of one entity defined as \<open>{b}\<close> and \<open>{a}\<close>, the
  expansion of \<open>{a}\<close> revisits the key \<open>e.a\<close> at depth two. The cycle test compares the
  stack of keys with the expression text (\<open>{a}\<close>, \<open>{b}\<close>), which is never a key, so no
  cyclic-expansion error is raised: whatever depth the recursion is allowed, the call
  has not returned.
\<close>

theorem C1_cycle_not_detected:
  "expandSqlExpression n ''{a}'' cyclic_ctx [] = None"
  using cyclic_never_returns [of "[]" n] by simp

subsection \<open>The shape of a rendered statement\<close>

lemma and_then_ok: "and_then m f = ok y \<longleftrightarrow> (\<exists>x. m = ok x \<and> f x = ok y)"
proof (cases m)
  case None
  then show ?thesis by (simp add: ok_def)
next
  case (Some r)
  then show ?thesis by (cases r) (auto simp: ok_def)
qed

lemma and_then_Inr:
  "and_then m f = Some (Inr y) \<longleftrightarrow> (\<exists>x. m = Some (Inr x) \<and> f x = Some (Inr y))"
  using and_then_ok [of m f y] by (simp add: ok_def)

lemma and_then_of_ok: "and_then (ok x) f = f x"
  by (simp add: ok_def)

lemma for_each_ok:
  "for_each f xs = ok ys \<Longrightarrow> list_all2 (\<lambda>x y. f x = ok y) xs ys"
proof (induction xs arbitrary: ys)
  case Nil
  then show ?case by (simp add: ok_def)
next
  case (Cons x xs)
  from Cons.prems obtain y ys' where "f x = ok y" "for_each f xs = ok ys'" "ys = y # ys'"
    by (auto simp: and_then_ok) (auto simp: ok_def)
  with Cons.IH show ?case by simp
qed

lemma join_with_Cons:
  "join_with sep (y # ys) = y @ concat (map (\<lambda>z. sep @ z) ys)"
  by (induction ys arbitrary: y) auto

lemma join_with_append:
  "xs \<noteq> [] \<Longrightarrow> ys \<noteq> [] \<Longrightarrow> join_with sep (xs @ ys) = join_with sep xs @ sep @ join_with sep ys"
proof (induction xs)
  case Nil
  then show ?case by simp
next
  case (Cons x xs)
  show ?case
  proof (cases xs)
    case Nil
    with Cons.prems show ?thesis by (cases ys) auto
  next
    case (Cons x' xs')
    with Cons.IH Cons.prems show ?thesis by simp
  qed
qed

lemma render_ok:
  assumes "renderSQLFromPlan n plan reg = ok sql"
  shows "\<exists>base rest jp cols fj w.
           selectedEntities plan = base # rest \<and>
           computeJoinPath n base (dedupe (selectedEntities plan)) reg = ok jp \<and>
           select_list n plan jp reg base (render_ctx base jp reg) = ok cols \<and>
           from_and_joins jp reg base (render_ctx base jp reg) = ok fj \<and>
           where_lines n plan reg base (render_ctx base jp reg) = ok w \<and>
           sql = join_with nl (render_parts cols (fst fj) (snd fj) w
                                 (length (intent_dimensions (plan_intent plan))))"
proof (cases "selectedEntities plan")
  case Nil
  with assms show ?thesis
    by (simp add: renderSQLFromPlan_def throw_def ok_def)
next
  case (Cons base rest)
  with assms have "base \<noteq> []"
    by (auto simp: renderSQLFromPlan_def throw_def ok_def split: if_splits)
  with assms Cons show ?thesis
    by (simp add: renderSQLFromPlan_def and_then_ok Let_def) (auto simp: ok_def)
qed


lemma demo_render: "renderSQLFromPlan 5 demo_plan demo_registry = ok demo_sql"
  by code_simp

subsection \<open>C7: the limit clause\<close>





subsection \<open>C10: the values of \<open>in\<close> and \<open>not_in\<close>\<close>

text \<open>
  C10 (as stated): the exactly-one-value check is applied only to the six scalar
  operators. It is applied to every operator other than \<open>in\<close> and \<open>not_in\<close>, before
  the operator is recognised: \<open>like\<close> is not one of the six scalar operators, and a
  filter with operator \<open>like\<close> and no value raises the single-value error, not the
  unsupported-operator error.
\<close>

theorem C10_counterexample:
  "''like'' \<notin> set scalar_operators \<and>
   buildPredicate 5 \<lparr>flt_field = ''tier'', flt_operator = ''like'', flt_values = []\<rparr> accounts_ctx
     = throw (ExpectsSingleValue ''like'')"
  by code_simp

text \<open>
  C10 (amended): for a filter with operator \<open>in\<close> or \<open>not_in\<close>, \<open>buildPredicate\<close> raises
  only what the expansion of the field raises; whatever the list of values, also the
  empty one, the field's SQL is followed by \<open>IN (...)\<close> or \<open>NOT IN (...)\<close> around the
  literals joined by commas, so the empty list gives \<open>IN ()\<close>. For every other
  operator, recognised or not, the exactly-one-value check comes first: once the field is
  expanded, any number of values other than one raises the single-value error; with
  exactly one value the predicate is built for the six scalar operators and any other
  operator raises the unsupported-operator error.
\<close>

theorem C10_in_not_in_any_arity:
  "(flt_operator f = ''in'' \<or> flt_operator f = ''not_in'' \<longrightarrow>
      buildPredicate n f ctx =
        and_then (expandSqlExpression n (''{'' @ flt_field f @ ''}'') ctx [])
          (\<lambda>fieldSql. ok (fieldSql @ (if flt_operator f = ''in'' then '' IN ('' else '' NOT IN ('')
                           @ join_with '', '' (map asSqlLiteral (flt_values f)) @ '')''))) \<and>
   (flt_operator f \<noteq> ''in'' \<and> flt_operator f \<noteq> ''not_in'' \<longrightarrow>
      buildPredicate n f ctx =
        and_then (expandSqlExpression n (''{'' @ flt_field f @ ''}'') ctx [])
          (\<lambda>fieldSql. case flt_values f of
                         [v] \<Rightarrow>
                           if flt_operator f \<in> set scalar_operators
                           then ok (fieldSql @ '' '' @ flt_operator f @ '' '' @ asSqlLiteral v)
                           else throw (UnsupportedOperator (flt_operator f))
                       | _ \<Rightarrow> throw (ExpectsSingleValue (flt_operator f))))"
proof (intro conjI impI)
  assume "flt_operator f = ''in'' \<or> flt_operator f = ''not_in''"
  then show "buildPredicate n f ctx =
        and_then (expandSqlExpression n (''{'' @ flt_field f @ ''}'') ctx [])
          (\<lambda>fieldSql. ok (fieldSql @ (if flt_operator f = ''in'' then '' IN ('' else '' NOT IN ('')
                           @ join_with '', '' (map asSqlLiteral (flt_values f)) @ '')''))"
    by (auto simp: buildPredicate_def Let_def intro!: arg_cong2 [where f = and_then])
next
  assume other: "flt_operator f \<noteq> ''in'' \<and> flt_operator f \<noteq> ''not_in''"
  have body: "(if length (flt_values f) \<noteq> Suc 0 then throw (ExpectsSingleValue (flt_operator f))
         else if flt_operator f \<in> set scalar_operators
              then ok (x @ '' '' @ flt_operator f @ '' '' @ asSqlLiteral (hd (flt_values f)))
              else throw (UnsupportedOperator (flt_operator f)))
      = (case flt_values f of
           [v] \<Rightarrow>
             if flt_operator f \<in> set scalar_operators
             then ok (x @ '' '' @ flt_operator f @ '' '' @ asSqlLiteral v)
             else throw (UnsupportedOperator (flt_operator f))
         | _ \<Rightarrow> throw (ExpectsSingleValue (flt_operator f)))" for x :: string
    by (cases "flt_values f"; cases "tl (flt_values f)") auto
  from other show "buildPredicate n f ctx =
        and_then (expandSqlExpression n (''{'' @ flt_field f @ ''}'') ctx [])
          (\<lambda>fieldSql. case flt_values f of
                         [v] \<Rightarrow>
                           if flt_operator f \<in> set scalar_operators
                           then ok (fieldSql @ '' '' @ flt_operator f @ '' '' @ asSqlLiteral v)
                           else throw (UnsupportedOperator (flt_operator f))
                       | _ \<Rightarrow> throw (ExpectsSingleValue (flt_operator f)))"
    by (simp add: buildPredicate_def Let_def body)
qed

theorem C10_in_not_in_any_arity_witness:
  "buildPredicate 5 \<lparr>flt_field = ''tier'', flt_operator = ''in'', flt_values = []\<rparr> accounts_ctx
     = ok ''t0.ACCOUNT_TIER IN ()'' \<and>
   buildPredicate 5 \<lparr>flt_field = ''tier'', flt_operator = ''not_in'', flt_values = []\<rparr>
       accounts_ctx
     = ok ''t0.ACCOUNT_TIER NOT IN ()'' \<and>
   buildPredicate 5 \<lparr>flt_field = ''tier'', flt_operator = ''>='', flt_values = []\<rparr> accounts_ctx
     = throw (ExpectsSingleValue ''>='') \<and>
   buildPredicate 5 \<lparr>flt_field = ''tier'', flt_operator = ''='',
                      flt_values = [VString ''pro'']\<rparr> accounts_ctx
     = ok (''t0.ACCOUNT_TIER = '' @ sq @ ''pro'' @ sq) \<and>
   buildPredicate 5 \<lparr>flt_field = ''tier'', flt_operator = ''like'',
                      flt_values = [VString ''p%'', VString ''q%'']\<rparr> accounts_ctx
     = throw (ExpectsSingleValue ''like'') \<and>
   buildPredicate 5 \<lparr>flt_field = ''tier'', flt_operator = ''like'',
                      flt_values = [VString ''p%'']\<rparr> accounts_ctx
     = throw (UnsupportedOperator ''like'')"
proof -
  have e: "expandSqlExpression 5 (''{'' @ ''tier'' @ ''}'') accounts_ctx [] = ok ''t0.ACCOUNT_TIER''"
    by code_simp
  have s: "''>='' \<in> set scalar_operators" "''='' \<in> set scalar_operators"
    "''like'' \<notin> set scalar_operators"
    by (simp_all add: scalar_operators_def)
  show ?thesis
    using
      C10_in_not_in_any_arity
        [of "\<lparr>flt_field = ''tier'', flt_operator = ''in'', flt_values = []\<rparr>" 5 accounts_ctx]
      C10_in_not_in_any_arity
        [of "\<lparr>flt_field = ''tier'', flt_operator = ''not_in'', flt_values = []\<rparr>" 5 accounts_ctx]
      C10_in_not_in_any_arity
        [of "\<lparr>flt_field = ''tier'', flt_operator = ''>='', flt_values = []\<rparr>" 5 accounts_ctx]
      C10_in_not_in_any_arity
        [of "\<lparr>flt_field = ''tier'', flt_operator = ''='', flt_values = [VString ''pro'']\<rparr>" 5
          accounts_ctx]
      C10_in_not_in_any_arity
        [of "\<lparr>flt_field = ''tier'', flt_operator = ''like'',
               flt_values = [VString ''p%'', VString ''q%'']\<rparr>" 5 accounts_ctx]
      C10_in_not_in_any_arity
        [of "\<lparr>flt_field = ''tier'', flt_operator = ''like'', flt_values = [VString ''p%'']\<rparr>" 5
          accounts_ctx]
      e s
    by (simp add: and_then_of_ok asSqlLiteral_def escape_quotes_def)
qed

subsection \<open>C6: the time range predicate\<close>

lemma render_parts_where:
  "\<exists>pre post. pre \<noteq> [] \<and>
     render_parts cols fromLine joinLines (tp # extra) k
       = pre @ (''WHERE '' @ tp @ concat (map (\<lambda>z. (nl @ ''  AND '') @ z) extra)) # post"
proof -
  have "render_parts cols fromLine joinLines (tp # extra) k
      = ([''SELECT'',
          if cols \<noteq> [] then ''  '' @ join_with ('','' @ nl @ ''  '') cols else ''  1 AS dummy'',
          fromLine] @ (if joinLines \<noteq> [] then [join_with nl joinLines] else []))
        @ (''WHERE '' @ tp @ concat (map (\<lambda>z. (nl @ ''  AND '') @ z) extra))
          # ((if k > 0 then [''GROUP BY '' @ join_with '', '' (map string_of_nat [1 ..< Suc k])]
              else []) @ [''LIMIT 1001''])"
    by (simp add: render_parts_def join_with_Cons)
  then show ?thesis by blast
qed

lemma where_time_ok:
  assumes "where_time n plan reg base ctx = ok timeLines"
    and "intent_timeRange (plan_intent plan) = Some r"
    and "map_of reg base = Some ent"
    and "time_dimensions ent = tdim # tdims"
  shows "\<exists>tExpr. expandSqlExpression n (td_sql tdim) ctx [] = ok tExpr \<and>
           timeLines = [time_predicate tExpr r]"
  using assms by (auto simp: where_time_def and_then_ok) (auto simp: ok_def)

text \<open>
  C6: when a plan with a time range renders, and its base entity (the first selected
  entity) has a time dimension, the statement has a \<open>WHERE\<close> clause that starts with
  \<open>tExpr >= 'start' AND tExpr < 'end'\<close>, where \<open>tExpr\<close> is the expansion of the SQL of the
  base entity's first time dimension in the renderer's context: the start is included
  and the end is excluded.
\<close>

theorem C6_time_range_half_open:
  assumes "renderSQLFromPlan n plan reg = ok sql"
    and "intent_timeRange (plan_intent plan) = Some r"
    and "selectedEntities plan = base # others"
    and "map_of reg base = Some ent"
    and "time_dimensions ent = tdim # tdims"
  shows "\<exists>jp tExpr before after.
           computeJoinPath n base (dedupe (selectedEntities plan)) reg = ok jp \<and>
           expandSqlExpression n (td_sql tdim) (render_ctx base jp reg) [] = ok tExpr \<and>
           sql = before @ nl @ ''WHERE '' @ tExpr @ '' >= '' @ sq @ template_text (tr_start r) @ sq
                   @ '' AND '' @ tExpr @ '' < '' @ sq @ template_text (tr_end r) @ sq @ after"
proof -
  from render_ok [OF assms(1)] assms(3) obtain jp cols fj w where
    jp: "computeJoinPath n base (dedupe (selectedEntities plan)) reg = ok jp"
    and w: "where_lines n plan reg base (render_ctx base jp reg) = ok w"
    and sql: "sql = join_with nl (render_parts cols (fst fj) (snd fj) w
                      (length (intent_dimensions (plan_intent plan))))"
    by auto
  from w obtain timeLines extra where
    t: "where_time n plan reg base (render_ctx base jp reg) = ok timeLines"
    and "w = timeLines @ extra"
    by (auto simp: where_lines_def and_then_ok) (auto simp: ok_def)
  moreover from where_time_ok [OF t assms(2) assms(4) assms(5)] obtain tExpr where
    e: "expandSqlExpression n (td_sql tdim) (render_ctx base jp reg) [] = ok tExpr"
    and "timeLines = [time_predicate tExpr r]"
    by blast
  ultimately have "w = time_predicate tExpr r # extra"
    by simp
  with render_parts_where obtain pre post where
    "pre \<noteq> []"
    "render_parts cols (fst fj) (snd fj) w (length (intent_dimensions (plan_intent plan)))
       = pre
         @ (''WHERE '' @ time_predicate tExpr r @ concat (map (\<lambda>z. (nl @ ''  AND '') @ z) extra))
           # post"
    by blast
  with sql have "sql = join_with nl pre @ nl @ ''WHERE '' @ time_predicate tExpr r
      @ (concat (map (\<lambda>z. (nl @ ''  AND '') @ z) extra) @ concat (map (\<lambda>z. nl @ z) post))"
    by (simp add: join_with_append join_with_Cons)
  then have "sql = join_with nl pre @ nl @ ''WHERE '' @ tExpr @ '' >= '' @ sq
      @ template_text (tr_start r) @ sq @ '' AND '' @ tExpr @ '' < '' @ sq
      @ template_text (tr_end r) @ sq
      @ (concat (map (\<lambda>z. (nl @ ''  AND '') @ z) extra) @ concat (map (\<lambda>z. nl @ z) post))"
    by (simp add: time_predicate_def)
  with jp e show ?thesis by blast
qed

theorem C6_time_range_half_open_witness:
  "renderSQLFromPlan 5 demo_plan demo_registry = ok demo_sql \<and>
   (\<exists>before after.
      demo_sql = before @ nl @ ''WHERE t0.CREATED_AT >= '' @ sq @ ''2025-03-26'' @ sq
        @ '' AND t0.CREATED_AT < '' @ sq @ ''2025-09-26'' @ sq @ after)"
proof -
  let ?r = "\<lparr>tr_start = Some ''2025-03-26'', tr_end = Some ''2025-09-26''\<rparr>"
  let ?td = "\<lparr>td_name = ''CREATED_AT'', td_sql = ''{CUBE}.CREATED_AT''\<rparr>"
  have r: "intent_timeRange (plan_intent demo_plan) = Some ?r"
    and s: "selectedEntities demo_plan = ''accounts'' # [''companies'']"
    by (simp_all add: demo_plan_def)
  have e: "map_of demo_registry ''accounts'' = Some (entity_of_raw accounts_raw)"
    by (simp add: demo_registry_def)
  have t: "time_dimensions (entity_of_raw accounts_raw) = ?td # []"
    by (simp add: entity_of_raw_def accounts_raw_def)
  have x: "and_then (computeJoinPath 5 ''accounts'' (dedupe (selectedEntities demo_plan))
                       demo_registry)
             (\<lambda>jp. expandSqlExpression 5 (td_sql ?td) (render_ctx ''accounts'' jp demo_registry) [])
           = ok ''t0.CREATED_AT''"
    by code_simp
  from C6_time_range_half_open [OF demo_render r s e t]
  obtain jp tExpr before after where
    jp: "computeJoinPath 5 ''accounts'' (dedupe (selectedEntities demo_plan)) demo_registry = ok jp"
    and tExpr: "expandSqlExpression 5 (td_sql ?td) (render_ctx ''accounts'' jp demo_registry) []
                  = ok tExpr"
    and sql: "demo_sql = before @ nl @ ''WHERE '' @ tExpr @ '' >= '' @ sq
        @ template_text (tr_start ?r) @ sq @ '' AND '' @ tExpr @ '' < '' @ sq
        @ template_text (tr_end ?r) @ sq @ after"
    by blast
  from x jp tExpr have "tExpr = ''t0.CREATED_AT''"
    by (simp add: and_then_of_ok ok_def)
  with sql have "demo_sql = before @ nl @ ''WHERE t0.CREATED_AT >= '' @ sq @ ''2025-03-26'' @ sq
        @ '' AND t0.CREATED_AT < '' @ sq @ ''2025-09-26'' @ sq @ after"
    by (simp add: template_text_def)
  with demo_render show ?thesis by blast
qed

subsection \<open>C9: the SELECT list is never empty\<close>

lemma list_all2_setD:
  "list_all2 P xs ys \<Longrightarrow> \<forall>y \<in> set ys. \<exists>x. P x y"
  by (induction rule: list_all2_induct) auto

lemma select_dimension_AS:
  "select_dimension n base ctx d = ok c \<Longrightarrow> \<exists>e l. c = e @ '' AS '' @ l"
  by (auto simp: select_dimension_def and_then_Inr ok_def) blast?

lemma select_metric_AS:
  "select_metric n jp reg ctx m = ok c \<Longrightarrow> \<exists>e l. c = e @ '' AS '' @ l"
  by (auto simp: select_metric_def and_then_Inr throw_def ok_def
      split: option.splits prod.splits) blast+

lemma select_list_AS:
  assumes "select_list n plan jp reg base ctx = ok cols"
  shows "\<forall>c \<in> set cols. \<exists>e l. c = e @ '' AS '' @ l"
proof -
  from assms obtain dimCols metricCols where
    d: "for_each (select_dimension n base ctx) (intent_dimensions (plan_intent plan)) = ok dimCols"
    and m: "for_each (select_metric n jp reg ctx) (intent_metrics (plan_intent plan)) = ok metricCols"
    and cols: "cols = dimCols @ metricCols"
    by (auto simp: select_list_def and_then_ok) (auto simp: ok_def)
  from list_all2_setD [OF for_each_ok [OF d]] select_dimension_AS
  have "\<forall>c \<in> set dimCols. \<exists>e l. c = e @ '' AS '' @ l"
    by blast
  moreover from list_all2_setD [OF for_each_ok [OF m]] select_metric_AS
  have "\<forall>c \<in> set metricCols. \<exists>e l. c = e @ '' AS '' @ l"
    by blast
  ultimately show ?thesis using cols by auto
qed

lemma from_and_joins_FROM:
  "from_and_joins jp reg base ctx = ok fj \<Longrightarrow> \<exists>t. fst fj = ''FROM '' @ t"
  by (auto simp: from_and_joins_def and_then_Inr throw_def ok_def split: option.splits)

lemma render_parts_select:
  "\<exists>tail. join_with nl (render_parts cols fromLine joinLines whereLines k)
     = ''SELECT'' @ nl @ ''  ''
       @ join_with ('','' @ nl @ ''  '') (if cols = [] then [''1 AS dummy''] else cols)
       @ nl @ fromLine @ tail"
  by (simp add: render_parts_def join_with_Cons)

lemma bare_render:
  "renderSQLFromPlan 5 bare_plan demo_registry
     = ok (join_with nl [''SELECT'', ''  1 AS dummy'', ''FROM main.accounts t0'', ''LIMIT 1001''])"
  by code_simp

text \<open>
  C9 (as stated): every plan with no dimensions and no metrics still renders. A plan
  with no dimensions, no metrics and a time range, whose base entity \<open>companies\<close> has no
  time dimension, does not render: the renderer raises the missing-time-dimension error.
\<close>

theorem C9_counterexample:
  "intent_dimensions (plan_intent time_ranged_plan) = [] \<and>
   intent_metrics (plan_intent time_ranged_plan) = [] \<and>
   renderSQLFromPlan 5 time_ranged_plan demo_registry = throw (NoTimeDimension ''companies'')"
  by code_simp

text \<open>
  C9 (amended): for a plan with no dimensions and no metrics the SELECT list raises
  nothing: the renderer raises exactly what the base entity, the join path, the FROM and
  JOIN lines and the WHERE lines raise, and when these are built it returns a statement
  whose SELECT list is exactly \<open>1 AS dummy\<close>. And no rendered statement has an empty
  SELECT list: between \<open>SELECT\<close> and \<open>FROM\<close> stands a non-empty list of columns of the
  form \<open>expression AS label\<close>.
\<close>

theorem C9_select_list_never_empty:
  "(intent_dimensions (plan_intent plan) = [] \<and> intent_metrics (plan_intent plan) = [] \<and>
    selectedEntities plan = base # others \<and> base \<noteq> [] \<and>
    computeJoinPath n base (dedupe (selectedEntities plan)) reg = ok jp \<and>
    from_and_joins jp reg base (render_ctx base jp reg) = ok fj \<and>
    where_lines n plan reg base (render_ctx base jp reg) = ok w \<longrightarrow>
      (\<exists>tail. renderSQLFromPlan n plan reg
                = ok (''SELECT'' @ nl @ ''  1 AS dummy'' @ nl @ ''FROM '' @ tail))) \<and>
   (renderSQLFromPlan n plan reg = ok sql \<longrightarrow>
      (\<exists>cols tail. cols \<noteq> [] \<and> (\<forall>c \<in> set cols. \<exists>e l. c = e @ '' AS '' @ l) \<and>
         sql = ''SELECT'' @ nl @ ''  '' @ join_with ('','' @ nl @ ''  '') cols @ nl @ ''FROM ''
                 @ tail)) \<and>
   (intent_dimensions (plan_intent plan) = [] \<and> intent_metrics (plan_intent plan) = [] \<longrightarrow>
      renderSQLFromPlan n plan reg =
        (case selectedEntities plan of
           [] \<Rightarrow> throw NoBaseEntity
         | base # _ \<Rightarrow>
            if base = [] then throw NoBaseEntity
            else
              and_then (computeJoinPath n base (dedupe (selectedEntities plan)) reg) (\<lambda>jp.
              and_then (from_and_joins jp reg base (render_ctx base jp reg)) (\<lambda>fj.
              and_then (where_lines n plan reg base (render_ctx base jp reg)) (\<lambda>w.
                ok (join_with nl
                      ([''SELECT'', ''  1 AS dummy'', fst fj]
                       @ (if snd fj \<noteq> [] then [join_with nl (snd fj)] else [])
                       @ (if w \<noteq> [] then [''WHERE '' @ join_with (nl @ ''  AND '') w] else [])
                       @ [''LIMIT 1001''])))))))"
proof (intro conjI impI)
  assume e: "intent_dimensions (plan_intent plan) = [] \<and> intent_metrics (plan_intent plan) = []"
  then have sel: "select_list n plan jp reg base ctx = ok []" for jp base ctx
    by (simp add: select_list_def and_then_of_ok)
  have parts: "render_parts [] f j w 0
      = [''SELECT'', ''  1 AS dummy'', f]
        @ (if j \<noteq> [] then [join_with nl j] else [])
        @ (if w \<noteq> [] then [''WHERE '' @ join_with (nl @ ''  AND '') w] else [])
        @ [''LIMIT 1001'']"
    for f j w
    by (simp add: render_parts_def)
  from e show "renderSQLFromPlan n plan reg =
        (case selectedEntities plan of
           [] \<Rightarrow> throw NoBaseEntity
         | base # _ \<Rightarrow>
            if base = [] then throw NoBaseEntity
            else
              and_then (computeJoinPath n base (dedupe (selectedEntities plan)) reg) (\<lambda>jp.
              and_then (from_and_joins jp reg base (render_ctx base jp reg)) (\<lambda>fj.
              and_then (where_lines n plan reg base (render_ctx base jp reg)) (\<lambda>w.
                ok (join_with nl
                      ([''SELECT'', ''  1 AS dummy'', fst fj]
                       @ (if snd fj \<noteq> [] then [join_with nl (snd fj)] else [])
                       @ (if w \<noteq> [] then [''WHERE '' @ join_with (nl @ ''  AND '') w] else [])
                       @ [''LIMIT 1001'']))))))"
    by (simp add: renderSQLFromPlan_def Let_def sel and_then_of_ok parts split: list.splits)
next
  assume a: "intent_dimensions (plan_intent plan) = [] \<and> intent_metrics (plan_intent plan) = [] \<and>
    selectedEntities plan = base # others \<and> base \<noteq> [] \<and>
    computeJoinPath n base (dedupe (selectedEntities plan)) reg = ok jp \<and>
    from_and_joins jp reg base (render_ctx base jp reg) = ok fj \<and>
    where_lines n plan reg base (render_ctx base jp reg) = ok w"
  define req where "req = dedupe (selectedEntities plan)"
  from a have s: "selectedEntities plan = base # others" and b: "base \<noteq> []"
    and f: "from_and_joins jp reg base (render_ctx base jp reg) = ok fj"
    and w: "where_lines n plan reg base (render_ctx base jp reg) = ok w"
    by blast+
  from a have jp: "computeJoinPath n base req reg = ok jp"
    unfolding req_def by blast
  from a have sel: "select_list n plan jp reg base (render_ctx base jp reg) = ok []"
    by (simp add: select_list_def and_then_of_ok)
  from a have k: "length (intent_dimensions (plan_intent plan)) = 0"
    by simp
  have "renderSQLFromPlan n plan reg
      = ok (join_with nl (render_parts [] (fst fj) (snd fj) w 0))"
    unfolding renderSQLFromPlan_def req_def [symmetric] k
    using s b jp sel f w by (simp add: and_then_of_ok Let_def)
  moreover from a from_and_joins_FROM obtain t where "fst fj = ''FROM '' @ t"
    by blast
  moreover from render_parts_select [of "[]" "fst fj" "snd fj" w 0] obtain tail where
    "join_with nl (render_parts [] (fst fj) (snd fj) w 0)
       = ''SELECT'' @ nl @ ''  '' @ ''1 AS dummy'' @ nl @ fst fj @ tail"
    by auto
  ultimately have "renderSQLFromPlan n plan reg
      = ok (''SELECT'' @ nl @ ''  1 AS dummy'' @ nl @ ''FROM '' @ (t @ tail))"
    by simp
  then show "\<exists>tail. renderSQLFromPlan n plan reg
                = ok (''SELECT'' @ nl @ ''  1 AS dummy'' @ nl @ ''FROM '' @ tail)"
    by blast
next
  assume "renderSQLFromPlan n plan reg = ok sql"
  from render_ok [OF this] obtain b jp' cols fj' w' where
    c: "select_list n plan jp' reg b (render_ctx b jp' reg) = ok cols"
    and f: "from_and_joins jp' reg b (render_ctx b jp' reg) = ok fj'"
    and sql: "sql = join_with nl (render_parts cols (fst fj') (snd fj') w'
                      (length (intent_dimensions (plan_intent plan))))"
    by blast
  define cols' where "cols' = (if cols = [] then [''1 AS dummy''] else cols)"
  have ne: "cols' \<noteq> []"
    by (simp add: cols'_def)
  have dummy: "\<exists>e l. ''1 AS dummy'' = e @ '' AS '' @ l"
    by (intro exI [of _ "''1''"] exI [of _ "''dummy''"]) simp
  have as: "\<forall>c \<in> set cols'. \<exists>e l. c = e @ '' AS '' @ l"
  proof (cases "cols = []")
    case True
    then show ?thesis using dummy by (simp add: cols'_def)
  next
    case False
    then show ?thesis using select_list_AS [OF c] by (simp add: cols'_def)
  qed
  from from_and_joins_FROM [OF f] obtain t where t: "fst fj' = ''FROM '' @ t"
    by blast
  from render_parts_select
    [of cols "fst fj'" "snd fj'" w' "length (intent_dimensions (plan_intent plan))"]
  obtain tail where tl:
    "join_with nl (render_parts cols (fst fj') (snd fj') w'
                     (length (intent_dimensions (plan_intent plan))))
       = ''SELECT'' @ nl @ ''  '' @ join_with ('','' @ nl @ ''  '') cols' @ nl @ fst fj' @ tail"
    unfolding cols'_def by blast
  have shape: "sql = ''SELECT'' @ nl @ ''  '' @ join_with ('','' @ nl @ ''  '') cols' @ nl
      @ ''FROM '' @ (t @ tail)"
    unfolding sql tl by (simp add: t)
  show "\<exists>cols tail. cols \<noteq> [] \<and> (\<forall>c \<in> set cols. \<exists>e l. c = e @ '' AS '' @ l) \<and>
         sql = ''SELECT'' @ nl @ ''  '' @ join_with ('','' @ nl @ ''  '') cols @ nl @ ''FROM ''
                 @ tail"
  proof (intro exI conjI)
    show "cols' \<noteq> []" by (rule ne)
    show "\<forall>c \<in> set cols'. \<exists>e l. c = e @ '' AS '' @ l" by (rule as)
    show "sql = ''SELECT'' @ nl @ ''  '' @ join_with ('','' @ nl @ ''  '') cols' @ nl
      @ ''FROM '' @ (t @ tail)" by (rule shape)
  qed
qed

theorem C9_select_list_never_empty_witness:
  "renderSQLFromPlan 5 bare_plan demo_registry
     = ok (join_with nl [''SELECT'', ''  1 AS dummy'', ''FROM main.accounts t0'', ''LIMIT 1001'']) \<and>
   (\<exists>tail. join_with nl [''SELECT'', ''  1 AS dummy'', ''FROM main.accounts t0'', ''LIMIT 1001'']
            = ''SELECT'' @ nl @ ''  1 AS dummy'' @ nl @ ''FROM '' @ tail) \<and>
   (\<exists>cols tail. cols \<noteq> [] \<and> (\<forall>c \<in> set cols. \<exists>e l. c = e @ '' AS '' @ l) \<and>
      join_with nl [''SELECT'', ''  1 AS dummy'', ''FROM main.accounts t0'', ''LIMIT 1001'']
        = ''SELECT'' @ nl @ ''  '' @ join_with ('','' @ nl @ ''  '') cols @ nl @ ''FROM '' @ tail)"
proof -
  let ?sql = "join_with nl [''SELECT'', ''  1 AS dummy'', ''FROM main.accounts t0'', ''LIMIT 1001'']"
  have d: "intent_dimensions (plan_intent bare_plan) = []"
    and m: "intent_metrics (plan_intent bare_plan) = []"
    by (simp_all add: bare_plan_def no_intent_def)
  from render_ok [OF bare_render] obtain base rest jp fj w where
    s: "selectedEntities bare_plan = base # rest"
    and jp: "computeJoinPath 5 base (dedupe (selectedEntities bare_plan)) demo_registry = ok jp"
    and f: "from_and_joins jp demo_registry base (render_ctx base jp demo_registry) = ok fj"
    and w: "where_lines 5 bare_plan demo_registry base (render_ctx base jp demo_registry) = ok w"
    by blast
  from s have b: "base \<noteq> []"
    by (auto simp: bare_plan_def)
  note inst = C9_select_list_never_empty
    [where plan = bare_plan and base = base and others = rest and n = 5
       and reg = demo_registry and jp = jp and fj = fj and w = w and sql = ?sql]
  from inst d m s b jp f w obtain tail where
    "renderSQLFromPlan 5 bare_plan demo_registry
       = ok (''SELECT'' @ nl @ ''  1 AS dummy'' @ nl @ ''FROM '' @ tail)"
    by blast
  with bare_render have "?sql = ''SELECT'' @ nl @ ''  1 AS dummy'' @ nl @ ''FROM '' @ tail"
    by (simp add: ok_def)
  then have first: "\<exists>tail. ?sql = ''SELECT'' @ nl @ ''  1 AS dummy'' @ nl @ ''FROM '' @ tail"
    by (rule exI)
  have second: "\<exists>cols tail. cols \<noteq> [] \<and> (\<forall>c \<in> set cols. \<exists>e l. c = e @ '' AS '' @ l) \<and>
      ?sql = ''SELECT'' @ nl @ ''  '' @ join_with ('','' @ nl @ ''  '') cols @ nl @ ''FROM '' @ tail"
    by (rule mp [OF conjunct1 [OF conjunct2 [OF inst]] bare_render])
  from bare_render first second show ?thesis
    by (intro conjI)
qed

end
